theory Spec2Isabelle
  imports
    Complex_Main
    "HOL-Library.Multiset"
    "HOL-Library.Char_ord"
    "HOL-Library.List_Lexorder"
    "HOL-Library.Log_Nat"
begin

section \<open>Metrics of VerticalPodAutoscaler objects (internal/store/verticalpodautoscaler.go)\<close>

text \<open>
  The development embeds the generators of \<^verbatim>\<open>vpaMetricFamilies\<close>, the conversion
  \<^verbatim>\<open>vpaResourcesToMetrics\<close>, the adapter \<^verbatim>\<open>wrapVPAFunc\<close> and the factory
  \<^verbatim>\<open>createVPAListWatchFunc\<close>.

  Conventions of the embedding:
  \<^item> A Go \<^verbatim>\<open>string\<close> is a \<open>string\<close> (a list of bytes).
  \<^item> A \<^verbatim>\<open>float64\<close> is the rational number it denotes. The conversion \<^verbatim>\<open>float64(n)\<close> of
    an \<^verbatim>\<open>int64\<close> and the division \<^verbatim>\<open>/\<close> round their exact result to the nearest
    \<^verbatim>\<open>float64\<close>, ties to even, as IEEE 754 has it (see \<open>roundFloat64\<close>).
  \<^item> A Go map is the list of its entries in the order in which a \<^verbatim>\<open>range\<close> loop visits
    them. Go leaves that order open, and it may change from one loop to the next, so
    one map has several such lists (see \<open>sameMap\<close>).
  \<^item> A slice of pointers to freshly allocated structs (\<^verbatim>\<open>[]*metric.Metric\<close>) is a list
    of values: every generator of this file allocates each Metric once and stores
    the pointer once, so no two entries of a slice alias.
  \<^item> A panic is the left summand of \<open>error + 'a\<close>.
\<close>

subsection \<open>Data model\<close>

type_synonym float64 = rat

text \<open>
  Rounding to \<^verbatim>\<open>float64\<close>. A \<^verbatim>\<open>float64\<close> other than zero is \<open>m * 2^e\<close> with a significand
  \<open>m\<close> of 53 bits, \<open>2^52 \<le> \<bar>m\<bar> < 2^53\<close>. The exact result \<open>p / q\<close> of an operation is
  scaled by the power of two that brings it into that range and rounded to the nearest
  integer, to the even one of two equally near. The exponent is not bounded in the
  model: every value this file computes is zero or lies between \<open>2^-10\<close> and \<open>2^63\<close> in
  magnitude, far from overflow and from the subnormal numbers.
\<close>

definition roundHalfEven :: "int \<Rightarrow> int \<Rightarrow> int" where
  "roundHalfEven num den =
     (let q = num div den; r = num mod den
      in if 2 * r < den then q
         else if den < 2 * r then q + 1
         else if even q then q else q + 1)"

text \<open>For positive \<open>p\<close> and \<open>q\<close>, the integer \<open>l\<close> with \<open>2^l \<le> p / q < 2^(l + 1)\<close>.\<close>

definition floorLog2 :: "int \<Rightarrow> int \<Rightarrow> int" where
  "floorLog2 p q =
     (let d = bitlen p - bitlen q
      in if (if 0 \<le> d then q * 2 ^ nat d \<le> p else q \<le> p * 2 ^ nat (- d)) then d else d - 1)"

definition roundRatio :: "int \<Rightarrow> int \<Rightarrow> float64" where
  "roundRatio p q =
     (if p = 0 then 0
      else
        let a = \<bar>p\<bar>; e = floorLog2 a q - 52
        in if 0 \<le> e then
             of_int (sgn p) * of_int (roundHalfEven a (q * 2 ^ nat e)) * 2 ^ nat e
           else
             of_int (sgn p) * of_int (roundHalfEven (a * 2 ^ nat (- e)) q) / 2 ^ nat (- e))"

definition roundFloat64 :: "rat \<Rightarrow> float64" where
  "roundFloat64 r = (case quotient_of r of (p, q) \<Rightarrow> roundRatio p q)"

text \<open>
  The conversion \<^verbatim>\<open>float64(n)\<close> of an \<^verbatim>\<open>int64\<close>, and the division of two \<^verbatim>\<open>float64\<close> with
  a divisor other than zero (the one divisor of this file is the constant 1000).
\<close>

definition float64OfInt64 :: "int \<Rightarrow> float64" where
  "float64OfInt64 n = roundFloat64 (of_int n)"

definition float64Div :: "float64 \<Rightarrow> float64 \<Rightarrow> float64" where
  "float64Div x y = roundFloat64 (x / y)"

text \<open>\<^verbatim>\<open>metric.Metric\<close> and \<^verbatim>\<open>metric.Family\<close>: the fields this file assigns.\<close>

record Metric =
  LabelKeys :: "string list"
  LabelValues :: "string list"
  Value :: float64

record Family =
  Metrics :: "Metric list"

text \<open>
  \<^verbatim>\<open>resource.Quantity\<close> belongs to k8s.io/apimachinery. The code reads a quantity only
  through \<^verbatim>\<open>MilliValue()\<close> and \<^verbatim>\<open>Value()\<close>, both \<^verbatim>\<open>int64\<close>, and converts the result to
  \<^verbatim>\<open>float64\<close> at once; the model keeps these two readings.
\<close>

record Quantity =
  MilliValue :: int
  Quantity_Value :: int

type_synonym ResourceName = string

text \<open>\<^verbatim>\<open>v1.ResourceList\<close>, a \<^verbatim>\<open>map[ResourceName]resource.Quantity\<close>.\<close>

type_synonym ResourceList = "(ResourceName \<times> Quantity) list"

definition ResourceCPU :: ResourceName where
  "ResourceCPU = ''cpu''"

definition ResourceMemory :: ResourceName where
  "ResourceMemory = ''memory''"

definition ResourceStorage :: ResourceName where
  "ResourceStorage = ''storage''"

definition ResourceEphemeralStorage :: ResourceName where
  "ResourceEphemeralStorage = ''ephemeral-storage''"

text \<open>
  Modelled from the spec: package \<^verbatim>\<open>constant\<close> (pkg/constant) is missing; the spec's
  example gives the unit strings \<^verbatim>\<open>"core"\<close> and \<^verbatim>\<open>"byte"\<close>.
\<close>

definition UnitCore :: string where
  "UnitCore = ''core''"

definition UnitByte :: string where
  "UnitByte = ''byte''"

text \<open>\<^verbatim>\<open>autoscaling.UpdateMode\<close> is a string type with four declared constants.\<close>

type_synonym UpdateMode = string

definition UpdateModeOff :: UpdateMode where
  "UpdateModeOff = ''Off''"

definition UpdateModeInitial :: UpdateMode where
  "UpdateModeInitial = ''Initial''"

definition UpdateModeRecreate :: UpdateMode where
  "UpdateModeRecreate = ''Recreate''"

definition UpdateModeAuto :: UpdateMode where
  "UpdateModeAuto = ''Auto''"

text \<open>
  The VerticalPodAutoscaler object, with the fields the generators read. A pointer
  that may be \<^verbatim>\<open>nil\<close> is an \<open>option\<close>; so is a slice that the code compares with
  \<^verbatim>\<open>nil\<close>. The embedded \<^verbatim>\<open>ObjectMeta\<close> is flattened, as Go's field promotion does.
\<close>

record CrossVersionObjectReference =
  Kind :: string
  TargetRef_Name :: string
  APIVersion :: string

record PodUpdatePolicy =
  UpdateMode :: "UpdateMode option"

record ContainerResourcePolicy =
  Policy_ContainerName :: string
  MinAllowed :: ResourceList
  MaxAllowed :: ResourceList

record PodResourcePolicy =
  ContainerPolicies :: "ContainerResourcePolicy list option"

record VerticalPodAutoscalerSpec =
  TargetRef :: "CrossVersionObjectReference option"
  UpdatePolicy :: "PodUpdatePolicy option"
  ResourcePolicy :: "PodResourcePolicy option"

record RecommendedContainerResources =
  ContainerName :: string
  Target :: ResourceList
  LowerBound :: ResourceList
  UpperBound :: ResourceList
  UncappedTarget :: ResourceList

record RecommendedPodResources =
  ContainerRecommendations :: "RecommendedContainerResources list option"

record VerticalPodAutoscalerStatus =
  Recommendation :: "RecommendedPodResources option"

record VerticalPodAutoscaler =
  Namespace :: string
  ObjectMeta_Name :: string
  Annotations :: "(string \<times> string) list"
  Labels :: "(string \<times> string) list"
  Spec :: VerticalPodAutoscalerSpec
  Status :: VerticalPodAutoscalerStatus

text \<open>
  The argument of a wrapped generator is an \<^verbatim>\<open>interface{}\<close>: a pointer to a
  VerticalPodAutoscaler, a \<^verbatim>\<open>nil\<close> pointer of that type, or anything else (a value of
  another dynamic type, or the \<^verbatim>\<open>nil\<close> interface).
\<close>

datatype Object =
  VerticalPodAutoscalerObject VerticalPodAutoscaler
  | NilVerticalPodAutoscaler
  | OtherObject

datatype error = TypeAssertionPanic | NilPointerPanic

text \<open>
  Modelled from the spec: package \<^verbatim>\<open>generator\<close> (pkg/metric_generator) is missing.
  A FamilyGenerator is an immutable record of a name, a help text, a kind among
  Gauge, Counter, Info and StateSet, an optional deprecation marker and the
  extraction function; \<^verbatim>\<open>NewFamilyGenerator\<close> builds it from its arguments.
\<close>

datatype MetricType = Gauge | Counter | Info | StateSet

record FamilyGenerator =
  Name :: string
  Help :: string
  Type :: MetricType
  DeprecatedVersion :: string
  GenerateFunc :: "Object \<Rightarrow> error + Family"

definition NewFamilyGenerator ::
  "string \<Rightarrow> string \<Rightarrow> MetricType \<Rightarrow> string \<Rightarrow> (Object \<Rightarrow> error + Family) \<Rightarrow> FamilyGenerator"
where
  "NewFamilyGenerator name help metricType deprecatedVersion generateFunc =
     \<lparr>Name = name, Help = help, Type = metricType,
      DeprecatedVersion = deprecatedVersion, GenerateFunc = generateFunc\<rparr>"

subsection \<open>Label composer\<close>

text \<open>
  Modelled from the spec: \<^verbatim>\<open>sanitizeLabelName\<close> (internal/store/utils.go) is missing.
  Any character outside \<^verbatim>\<open>[A-Za-z0-9_]\<close> becomes \<^verbatim>\<open>_\<close>; if the result does not start
  with a letter or underscore, \<^verbatim>\<open>_\<close> is prepended.
\<close>

definition isLetter :: "char \<Rightarrow> bool" where
  "isLetter c =
     (let n = (of_char c :: nat) in (65 \<le> n \<and> n \<le> 90) \<or> (97 \<le> n \<and> n \<le> 122))"

definition isDigit :: "char \<Rightarrow> bool" where
  "isDigit c = (let n = (of_char c :: nat) in 48 \<le> n \<and> n \<le> 57)"

definition sanitizeChar :: "char \<Rightarrow> char" where
  "sanitizeChar c = (if isLetter c \<or> isDigit c \<or> c = CHR ''_'' then c else CHR ''_'')"

definition startsWithLetterOrUnderscore :: "string \<Rightarrow> bool" where
  "startsWithLetterOrUnderscore s =
     (case s of [] \<Rightarrow> False | c # _ \<Rightarrow> isLetter c \<or> c = CHR ''_'')"

definition sanitizeLabelName :: "string \<Rightarrow> string" where
  "sanitizeLabelName s =
     (let r = map sanitizeChar s
      in if startsWithLetterOrUnderscore r then r else CHR ''_'' # r)"

text \<open>
  Modelled from the spec: \<^verbatim>\<open>createPrometheusLabelKeysValues\<close> (internal/store/utils.go)
  is missing. Its input is a string map, an allow-list and a prefix; its output is two
  parallel sequences. An allow-list is the wildcard or an explicit ordered list of keys.
  With the wildcard every entry passes, sorted by sanitized key; with an explicit list
  the listed keys that the map holds pass, in the order of the list. Of several
  entries with one sanitized key the first one met in that order is kept. The spec
  wants the composition deterministic and leaves open which of two colliding keys
  comes first in the sorted order; the model commits to the policy the spec names,
  sort before resolve: the entries of the map are taken in ascending order of their
  keys, and the sort by sanitized key is stable. The call
  sites pass the prefixes \<^verbatim>\<open>"annotation"\<close> and \<^verbatim>\<open>"label"\<close>, the spec names the key
  namespaces \<^verbatim>\<open>"annotation_"\<close> and \<^verbatim>\<open>"label_"\<close>: the model joins prefix and sanitized
  key with \<^verbatim>\<open>_\<close>.
\<close>

datatype AllowList = Wildcard | Explicit "string list"

fun firstSeenWins :: "string list \<Rightarrow> (string \<times> string) list \<Rightarrow> (string \<times> string) list" where
  "firstSeenWins seen [] = []"
| "firstSeenWins seen ((k, v) # kvs) =
     (if k \<in> set seen then firstSeenWins seen kvs
      else (k, v) # firstSeenWins (k # seen) kvs)"

definition sanitizeEntry :: "string \<times> string \<Rightarrow> string \<times> string" where
  "sanitizeEntry kv = (sanitizeLabelName (fst kv), snd kv)"

definition lookupAllowed :: "(string \<times> string) list \<Rightarrow> string \<Rightarrow> (string \<times> string) list" where
  "lookupAllowed allKubeData k =
     (case map_of allKubeData k of None \<Rightarrow> [] | Some v \<Rightarrow> [(k, v)])"

definition allowedEntries :: "(string \<times> string) list \<Rightarrow> AllowList \<Rightarrow> (string \<times> string) list" where
  "allowedEntries allKubeData allowList =
     (case allowList of
        Wildcard \<Rightarrow> sort_key fst (map sanitizeEntry (sort_key fst allKubeData))
      | Explicit ks \<Rightarrow> map sanitizeEntry (concat (map (lookupAllowed allKubeData) ks)))"

definition createPrometheusLabelKeysValues ::
  "string \<Rightarrow> (string \<times> string) list \<Rightarrow> AllowList \<Rightarrow> string list \<times> string list"
where
  "createPrometheusLabelKeysValues prefix allKubeData allowList =
     (let kept = firstSeenWins [] (allowedEntries allKubeData allowList)
      in (map (\<lambda>kv. prefix @ ''_'' @ fst kv) kept, map snd kept))"

subsection \<open>Resource quantities to metrics\<close>

text \<open>
  \<^verbatim>\<open>vpaResourcesToMetrics\<close>: the first loop ranges over the map and appends one Metric
  for a recognized resource name (the \<^verbatim>\<open>switch\<close> has no default case); the second
  loop sets the label keys of every Metric appended.
\<close>

definition appendResourceMetric :: "string \<Rightarrow> Metric list \<Rightarrow> ResourceName \<times> Quantity \<Rightarrow> Metric list" where
  "appendResourceMetric containerName ms entry =
     (let resourceName = fst entry; val = snd entry
      in if resourceName = ResourceCPU then
           ms @ [\<lparr>LabelKeys = [],
                  LabelValues = [containerName, sanitizeLabelName resourceName, UnitCore],
                  Value = float64Div (float64OfInt64 (MilliValue val)) 1000\<rparr>]
         else if resourceName = ResourceStorage \<or> resourceName = ResourceEphemeralStorage
                 \<or> resourceName = ResourceMemory then
           ms @ [\<lparr>LabelKeys = [],
                  LabelValues = [containerName, sanitizeLabelName resourceName, UnitByte],
                  Value = float64OfInt64 (Quantity_Value val)\<rparr>]
         else ms)"

definition vpaResourcesToMetrics :: "string \<Rightarrow> ResourceList \<Rightarrow> Metric list" where
  "vpaResourcesToMetrics containerName resources =
     (let ms = foldl (appendResourceMetric containerName) [] resources
      in map (\<lambda>m. m\<lparr>LabelKeys := [''container'', ''resource'', ''unit'']\<rparr>) ms)"

subsection \<open>The default-label wrapper\<close>

definition descVerticalPodAutoscalerLabelsDefaultLabels :: "string list" where
  "descVerticalPodAutoscalerLabelsDefaultLabels =
     [''namespace'', ''verticalpodautoscaler'', ''target_api_version'', ''target_kind'',
      ''target_name'']"

text \<open>
  \<^verbatim>\<open>wrapVPAFunc\<close>. The type assertion \<^verbatim>\<open>obj.(*autoscaling.VerticalPodAutoscaler)\<close> has the
  one-result form, which panics on any other dynamic type. A \<^verbatim>\<open>nil\<close> pointer of the
  right type passes the assertion and is dereferenced by \<^verbatim>\<open>vpa.Spec\<close> at the latest.
  The global slice of default labels has length and capacity five, so \<^verbatim>\<open>append\<close>
  never writes into it.
\<close>

definition defaultLabelValues :: "VerticalPodAutoscaler \<Rightarrow> string list" where
  "defaultLabelValues vpa =
     (let targetRef = (case TargetRef (Spec vpa) of
                         None \<Rightarrow> \<lparr>Kind = [], TargetRef_Name = [], APIVersion = []\<rparr>
                       | Some r \<Rightarrow> r)
      in [Namespace vpa, ObjectMeta_Name vpa, APIVersion targetRef, Kind targetRef,
          TargetRef_Name targetRef])"

definition prependDefaultLabels :: "VerticalPodAutoscaler \<Rightarrow> Metric \<Rightarrow> Metric" where
  "prependDefaultLabels vpa m =
     m\<lparr>LabelKeys := descVerticalPodAutoscalerLabelsDefaultLabels @ LabelKeys m,
       LabelValues := defaultLabelValues vpa @ LabelValues m\<rparr>"

definition wrapVPAFunc :: "(VerticalPodAutoscaler \<Rightarrow> Family) \<Rightarrow> Object \<Rightarrow> error + Family" where
  "wrapVPAFunc f obj =
     (case obj of
        OtherObject \<Rightarrow> Inl TypeAssertionPanic
      | NilVerticalPodAutoscaler \<Rightarrow> Inl NilPointerPanic
      | VerticalPodAutoscalerObject vpa \<Rightarrow>
          (let metricFamily = f vpa
           in Inr (metricFamily\<lparr>Metrics := map (prependDefaultLabels vpa) (Metrics metricFamily)\<rparr>)))"

subsection \<open>The generators\<close>

text \<open>
  The nine closures that \<^verbatim>\<open>vpaMetricFamilies\<close> passes to \<^verbatim>\<open>wrapVPAFunc\<close>, in the order
  of their declaration. The source leaves them anonymous; each is named here after
  its metric.
\<close>

definition vpaAnnotationsFunc :: "AllowList \<Rightarrow> VerticalPodAutoscaler \<Rightarrow> Family" where
  "vpaAnnotationsFunc allowAnnotationsList a =
     (let (annotationKeys, annotationValues) =
            createPrometheusLabelKeysValues ''annotation'' (Annotations a) allowAnnotationsList
      in \<lparr>Metrics = [\<lparr>LabelKeys = annotationKeys, LabelValues = annotationValues, Value = 1\<rparr>]\<rparr>)"

definition vpaLabelsFunc :: "AllowList \<Rightarrow> VerticalPodAutoscaler \<Rightarrow> Family" where
  "vpaLabelsFunc allowLabelsList a =
     (let (labelKeys, labelValues) =
            createPrometheusLabelKeysValues ''label'' (Labels a) allowLabelsList
      in \<lparr>Metrics = [\<lparr>LabelKeys = labelKeys, LabelValues = labelValues, Value = 1\<rparr>]\<rparr>)"

definition appendUpdateModeMetric :: "UpdateMode \<Rightarrow> Metric list \<Rightarrow> UpdateMode \<Rightarrow> Metric list" where
  "appendUpdateModeMetric updateMode ms mode =
     (let v = (if updateMode = mode then 1 else 0)
      in ms @ [\<lparr>LabelKeys = [''update_mode''], LabelValues = [mode], Value = v\<rparr>])"

definition vpaUpdateModeFunc :: "VerticalPodAutoscaler \<Rightarrow> Family" where
  "vpaUpdateModeFunc a =
     (let ms = []
      in case UpdatePolicy (Spec a) of
           None \<Rightarrow> \<lparr>Metrics = ms\<rparr>
         | Some updatePolicy \<Rightarrow>
             (case UpdateMode updatePolicy of
                None \<Rightarrow> \<lparr>Metrics = ms\<rparr>
              | Some updateMode \<Rightarrow>
                  \<lparr>Metrics = foldl (appendUpdateModeMetric updateMode) ms
                     [UpdateModeOff, UpdateModeInitial, UpdateModeRecreate, UpdateModeAuto]\<rparr>))"

definition containerPoliciesFunc ::
  "(ContainerResourcePolicy \<Rightarrow> ResourceList) \<Rightarrow> VerticalPodAutoscaler \<Rightarrow> Family"
where
  "containerPoliciesFunc field a =
     (let ms = []
      in case ResourcePolicy (Spec a) of
           None \<Rightarrow> \<lparr>Metrics = ms\<rparr>
         | Some resourcePolicy \<Rightarrow>
             (case ContainerPolicies resourcePolicy of
                None \<Rightarrow> \<lparr>Metrics = ms\<rparr>
              | Some containerPolicies \<Rightarrow>
                  \<lparr>Metrics = foldl (\<lambda>ms c. ms @ vpaResourcesToMetrics (Policy_ContainerName c) (field c))
                     ms containerPolicies\<rparr>))"

definition containerRecommendationsFunc ::
  "(RecommendedContainerResources \<Rightarrow> ResourceList) \<Rightarrow> VerticalPodAutoscaler \<Rightarrow> Family"
where
  "containerRecommendationsFunc field a =
     (let ms = []
      in case Recommendation (Status a) of
           None \<Rightarrow> \<lparr>Metrics = ms\<rparr>
         | Some recommendation \<Rightarrow>
             (case ContainerRecommendations recommendation of
                None \<Rightarrow> \<lparr>Metrics = ms\<rparr>
              | Some containerRecommendations \<Rightarrow>
                  \<lparr>Metrics = foldl (\<lambda>ms c. ms @ vpaResourcesToMetrics (ContainerName c) (field c))
                     ms containerRecommendations\<rparr>))"

text \<open>
  The two closures over \<^verbatim>\<open>Spec.ResourcePolicy.ContainerPolicies\<close> differ in the field
  they read only, and so do the four over
  \<^verbatim>\<open>Status.Recommendation.ContainerRecommendations\<close>.
\<close>

definition vpaMinAllowedFunc :: "VerticalPodAutoscaler \<Rightarrow> Family" where
  "vpaMinAllowedFunc = containerPoliciesFunc MinAllowed"

definition vpaMaxAllowedFunc :: "VerticalPodAutoscaler \<Rightarrow> Family" where
  "vpaMaxAllowedFunc = containerPoliciesFunc MaxAllowed"

definition vpaLowerBoundFunc :: "VerticalPodAutoscaler \<Rightarrow> Family" where
  "vpaLowerBoundFunc = containerRecommendationsFunc LowerBound"

definition vpaUpperBoundFunc :: "VerticalPodAutoscaler \<Rightarrow> Family" where
  "vpaUpperBoundFunc = containerRecommendationsFunc UpperBound"

definition vpaTargetFunc :: "VerticalPodAutoscaler \<Rightarrow> Family" where
  "vpaTargetFunc = containerRecommendationsFunc Target"

definition vpaUncappedTargetFunc :: "VerticalPodAutoscaler \<Rightarrow> Family" where
  "vpaUncappedTargetFunc = containerRecommendationsFunc UncappedTarget"

definition vpaTypedFuncs :: "AllowList \<Rightarrow> AllowList \<Rightarrow> (VerticalPodAutoscaler \<Rightarrow> Family) list" where
  "vpaTypedFuncs allowAnnotationsList allowLabelsList =
     [vpaAnnotationsFunc allowAnnotationsList,
      vpaLabelsFunc allowLabelsList,
      vpaUpdateModeFunc,
      vpaMinAllowedFunc,
      vpaMaxAllowedFunc,
      vpaLowerBoundFunc,
      vpaUpperBoundFunc,
      vpaTargetFunc,
      vpaUncappedTargetFunc]"

definition descVerticalPodAutoscalerAnnotationsName :: string where
  "descVerticalPodAutoscalerAnnotationsName = ''kube_verticalpodautoscaler_annotations''"

definition descVerticalPodAutoscalerAnnotationsHelp :: string where
  "descVerticalPodAutoscalerAnnotationsHelp =
     ''Kubernetes annotations converted to Prometheus labels.''"

definition descVerticalPodAutoscalerLabelsName :: string where
  "descVerticalPodAutoscalerLabelsName = ''kube_verticalpodautoscaler_labels''"

definition descVerticalPodAutoscalerLabelsHelp :: string where
  "descVerticalPodAutoscalerLabelsHelp = ''Kubernetes labels converted to Prometheus labels.''"

definition vpaMetricFamilies :: "AllowList \<Rightarrow> AllowList \<Rightarrow> FamilyGenerator list" where
  "vpaMetricFamilies allowAnnotationsList allowLabelsList =
     [NewFamilyGenerator
        descVerticalPodAutoscalerAnnotationsName
        descVerticalPodAutoscalerAnnotationsHelp
        Gauge
        ''''
        (wrapVPAFunc (vpaAnnotationsFunc allowAnnotationsList)),
      NewFamilyGenerator
        descVerticalPodAutoscalerLabelsName
        descVerticalPodAutoscalerLabelsHelp
        Gauge
        ''''
        (wrapVPAFunc (vpaLabelsFunc allowLabelsList)),
      NewFamilyGenerator
        ''kube_verticalpodautoscaler_spec_updatepolicy_updatemode''
        ''Update mode of the VerticalPodAutoscaler.''
        Gauge
        ''''
        (wrapVPAFunc vpaUpdateModeFunc),
      NewFamilyGenerator
        ''kube_verticalpodautoscaler_spec_resourcepolicy_container_policies_minallowed''
        ''Minimum resources the VerticalPodAutoscaler can set for containers matching the name.''
        Gauge
        ''''
        (wrapVPAFunc vpaMinAllowedFunc),
      NewFamilyGenerator
        ''kube_verticalpodautoscaler_spec_resourcepolicy_container_policies_maxallowed''
        ''Maximum resources the VerticalPodAutoscaler can set for containers matching the name.''
        Gauge
        ''''
        (wrapVPAFunc vpaMaxAllowedFunc),
      NewFamilyGenerator
        ''kube_verticalpodautoscaler_status_recommendation_containerrecommendations_lowerbound''
        ''Minimum resources the container can use before the VerticalPodAutoscaler updater evicts it.''
        Gauge
        ''''
        (wrapVPAFunc vpaLowerBoundFunc),
      NewFamilyGenerator
        ''kube_verticalpodautoscaler_status_recommendation_containerrecommendations_upperbound''
        ''Maximum resources the container can use before the VerticalPodAutoscaler updater evicts it.''
        Gauge
        ''''
        (wrapVPAFunc vpaUpperBoundFunc),
      NewFamilyGenerator
        ''kube_verticalpodautoscaler_status_recommendation_containerrecommendations_target''
        ''Target resources the VerticalPodAutoscaler recommends for the container.''
        Gauge
        ''''
        (wrapVPAFunc vpaTargetFunc),
      NewFamilyGenerator
        ''kube_verticalpodautoscaler_status_recommendation_containerrecommendations_uncappedtarget''
        ''Target resources the VerticalPodAutoscaler recommends for the container ignoring bounds.''
        Gauge
        ''''
        (wrapVPAFunc vpaUncappedTargetFunc)]"


subsection \<open>The list/watch factory\<close>

text \<open>
  \<^verbatim>\<open>createVPAListWatchFunc\<close>. The client set belongs to k8s.io/autoscaler; it is a
  record of its methods. A call of the client acts on the world outside the process,
  so \<^verbatim>\<open>List\<close> and \<^verbatim>\<open>Watch\<close> are state transformers over a state \<open>'s\<close>; \<open>'o\<close> stands for
  \<^verbatim>\<open>metav1.ListOptions\<close>, \<open>'l\<close> and \<open>'w\<close> for the result pairs of the two calls, \<open>'k\<close>
  for the unused \<^verbatim>\<open>kubeClient\<close>.
\<close>

datatype Context = Context_TODO

record ('o, 'l, 'w, 's) VerticalPodAutoscalerInterface =
  List :: "Context \<Rightarrow> 'o \<Rightarrow> 's \<Rightarrow> 'l \<times> 's"
  Watch :: "Context \<Rightarrow> 'o \<Rightarrow> 's \<Rightarrow> 'w \<times> 's"

record ('o, 'l, 'w, 's) AutoscalingV1beta2Interface =
  VerticalPodAutoscalers :: "string \<Rightarrow> ('o, 'l, 'w, 's) VerticalPodAutoscalerInterface"

record ('o, 'l, 'w, 's) vpaclientset =
  AutoscalingV1beta2 :: "('o, 'l, 'w, 's) AutoscalingV1beta2Interface"

record ('o, 'l, 'w, 's) ListWatch =
  ListFunc :: "'o \<Rightarrow> 's \<Rightarrow> 'l \<times> 's"
  WatchFunc :: "'o \<Rightarrow> 's \<Rightarrow> 'w \<times> 's"

definition createVPAListWatchFunc ::
  "('o, 'l, 'w, 's) vpaclientset \<Rightarrow> 'k \<Rightarrow> string \<Rightarrow> ('o, 'l, 'w, 's) ListWatch"
where
  "createVPAListWatchFunc vpaClient kubeClient ns =
     \<lparr>ListFunc = (\<lambda>opts.
        List (VerticalPodAutoscalers (AutoscalingV1beta2 vpaClient) ns) Context_TODO opts),
      WatchFunc = (\<lambda>opts.
        Watch (VerticalPodAutoscalers (AutoscalingV1beta2 vpaClient) ns) Context_TODO opts)\<rparr>"

text \<open>
  A client that does nothing but record the calls it receives: the state is the log
  of the calls so far.
\<close>

datatype 'o ClientCall = ListCall string Context 'o | WatchCall string Context 'o

definition recordingClient :: "('o, unit, unit, 'o ClientCall list) vpaclientset" where
  "recordingClient =
     \<lparr>AutoscalingV1beta2 =
        \<lparr>VerticalPodAutoscalers = (\<lambda>ns.
           \<lparr>List = (\<lambda>ctx opts calls. ((), calls @ [ListCall ns ctx opts])),
            Watch = (\<lambda>ctx opts calls. ((), calls @ [WatchCall ns ctx opts]))\<rparr>)\<rparr>\<rparr>"

subsection \<open>Auxiliary notions for the statements\<close>

text \<open>What one entry of a resource list contributes to the result of
  \<^verbatim>\<open>vpaResourcesToMetrics\<close>: the Metric of the first loop with the keys of the second.\<close>

definition resourceMetrics :: "string \<Rightarrow> ResourceName \<times> Quantity \<Rightarrow> Metric list" where
  "resourceMetrics containerName entry =
     map (\<lambda>m. m\<lparr>LabelKeys := [''container'', ''resource'', ''unit'']\<rparr>)
       (appendResourceMetric containerName [] entry)"








text \<open>The allow-list lets no key of the map through.\<close>

definition passesNoKeys :: "AllowList \<Rightarrow> (string \<times> string) list \<Rightarrow> bool" where
  "passesNoKeys allowList kvs =
     (case allowList of
        Wildcard \<Rightarrow> kvs = []
      | Explicit ks \<Rightarrow> list_all (\<lambda>k. k \<notin> set (map fst kvs)) ks)"

subsection \<open>Example objects\<close>

text \<open>The quantities \<^verbatim>\<open>500m\<close> (half a core) and \<^verbatim>\<open>128Mi\<close> (\<open>128 * 2^20\<close> bytes).\<close>

definition quantity_500m :: Quantity where
  "quantity_500m = \<lparr>MilliValue = 500, Quantity_Value = 1\<rparr>"

definition quantity_128Mi :: Quantity where
  "quantity_128Mi = \<lparr>MilliValue = 134217728000, Quantity_Value = 134217728\<rparr>"

text \<open>The quantities \<^verbatim>\<open>100m\<close> (a tenth of a core) and \<^verbatim>\<open>9007199254740993\<close> (\<open>2^53 + 1\<close> bytes).\<close>

definition quantity_100m :: Quantity where
  "quantity_100m = \<lparr>MilliValue = 100, Quantity_Value = 1\<rparr>"

definition quantity_9007199254740993 :: Quantity where
  "quantity_9007199254740993 =
     \<lparr>MilliValue = 9007199254740993000, Quantity_Value = 9007199254740993\<rparr>"

definition exampleResources :: ResourceList where
  "exampleResources = [(''cpu'', quantity_500m), (''memory'', quantity_128Mi)]"

definition exampleResourcesReordered :: ResourceList where
  "exampleResourcesReordered = [(''memory'', quantity_128Mi), (''cpu'', quantity_500m)]"

definition exampleSpec :: "ResourceList \<Rightarrow> VerticalPodAutoscalerSpec" where
  "exampleSpec minAllowed =
     \<lparr>TargetRef = Some \<lparr>Kind = ''Deployment'', TargetRef_Name = ''deployment1'',
                        APIVersion = ''apps/v1''\<rparr>,
      UpdatePolicy = Some \<lparr>UpdateMode = Some ''Recreate''\<rparr>,
      ResourcePolicy = Some \<lparr>ContainerPolicies = Some
        [\<lparr>Policy_ContainerName = ''*'', MinAllowed = minAllowed,
          MaxAllowed = exampleResources\<rparr>]\<rparr>\<rparr>"

definition exampleStatus :: VerticalPodAutoscalerStatus where
  "exampleStatus =
     \<lparr>Recommendation = Some \<lparr>ContainerRecommendations = Some
        [\<lparr>ContainerName = ''container1'', Target = exampleResources,
          LowerBound = exampleResources, UpperBound = exampleResources,
          UncappedTarget = exampleResources\<rparr>]\<rparr>\<rparr>"

definition exampleVPAWith :: "ResourceList \<Rightarrow> VerticalPodAutoscaler" where
  "exampleVPAWith minAllowed =
     \<lparr>Namespace = ''ns1'', ObjectMeta_Name = ''vpa1'',
      Annotations = [(''app.k8s.io/owner'', ''team-a'')],
      Labels = [(''app'', ''foobar'')],
      Spec = exampleSpec minAllowed,
      Status = exampleStatus\<rparr>"

text \<open>One object, with the entries of \<^verbatim>\<open>MinAllowed\<close> visited in the two possible orders.\<close>

definition exampleVPA :: VerticalPodAutoscaler where
  "exampleVPA = exampleVPAWith exampleResources"

definition exampleVPAReordered :: VerticalPodAutoscaler where
  "exampleVPAReordered = exampleVPAWith exampleResourcesReordered"

text \<open>An object with every optional part unset.\<close>

definition bareVPA :: VerticalPodAutoscaler where
  "bareVPA =
     \<lparr>Namespace = ''ns1'', ObjectMeta_Name = ''vpa2'', Annotations = [], Labels = [],
      Spec = \<lparr>TargetRef = None, UpdatePolicy = None, ResourcePolicy = None\<rparr>,
      Status = \<lparr>Recommendation = None\<rparr>\<rparr>"

definition exampleAllowList :: AllowList where
  "exampleAllowList = Explicit [''app'']"

section \<open>Properties\<close>

subsection \<open>Rounding to float64\<close>

lemma roundHalfEven_error:
  assumes "0 < den"
  shows "\<bar>of_int (roundHalfEven num den) - (of_int num / of_int den :: rat)\<bar> \<le> 1 / 2"
proof -
  define q r where "q = num div den" and "r = num mod den"
  have r: "0 \<le> r" "r < den"
    using assms by (simp_all add: r_def)
  have "num = q * den + r"
    by (simp add: q_def r_def)
  then have "(of_int num :: rat) = of_int q * of_int den + of_int r"
    by simp
  with assms have frac: "(of_int num / of_int den :: rat) = of_int q + of_int r / of_int den"
    by (simp add: field_simps)
  have den: "(0::rat) < of_int den"
    using assms by simp
  have r0: "(0::rat) \<le> of_int r / of_int den"
    using r den by simp
  have r1: "of_int r / of_int den < (1::rat)"
    using r den by simp
  consider "2 * r < den" | "den < 2 * r" | "2 * r = den"
    by linarith
  then show ?thesis
  proof cases
    case 1
    then have "(2::rat) * of_int r < of_int den"
      by (metis of_int_less_iff of_int_mult of_int_numeral)
    with den have "of_int r / of_int den < (1 / 2 :: rat)"
      by (simp add: field_simps)
    moreover from 1 have "roundHalfEven num den = q"
      by (simp add: roundHalfEven_def Let_def q_def r_def)
    ultimately show ?thesis
      using r0 by (simp add: frac)
  next
    case 2
    then have "of_int den < (2::rat) * of_int r"
      by (metis of_int_less_iff of_int_mult of_int_numeral)
    with den have "(1 / 2 :: rat) < of_int r / of_int den"
      by (simp add: field_simps)
    moreover from 2 have "roundHalfEven num den = q + 1"
      by (simp add: roundHalfEven_def Let_def q_def r_def)
    ultimately show ?thesis
      using r1 by (simp add: frac)
  next
    case 3
    then have "(2::rat) * of_int r = of_int den"
      by (metis of_int_mult of_int_numeral)
    with den have half: "of_int r / of_int den = (1 / 2 :: rat)"
      by (simp add: field_simps)
    from 3 have "roundHalfEven num den = q \<or> roundHalfEven num den = q + 1"
      by (simp add: roundHalfEven_def Let_def q_def r_def)
    then show ?thesis
      by (auto simp add: frac half)
  qed
qed

lemma roundHalfEven_exact:
  "0 < den \<Longrightarrow> roundHalfEven (k * den) den = k"
  by (simp add: roundHalfEven_def)

lemma floorLog2_bounds:
  assumes "0 < p" and "0 < q"
  shows "(2::rat) powi floorLog2 p q \<le> of_int p / of_int q"
    and "of_int p / of_int q < (2::rat) powi (floorLog2 p q + 1)"
proof -
  define bp bq d where "bp = bitlen p" and "bq = bitlen q" and "d = bp - bq"
  have bp1: "1 \<le> bp" and bq1: "1 \<le> bq"
    using assms bitlen_eq_zero_iff [of p] bitlen_eq_zero_iff [of q] bitlen_nonneg [of p]
      bitlen_nonneg [of q]
    by (auto simp add: bp_def bq_def intro: Orderings.order_antisym)
  have P: "(2::rat) powi (bp - 1) \<le> of_int p" "of_int p < (2::rat) powi bp"
  proof -
    from bitlen_bounds [OF assms(1)]
    have "2 ^ nat (bp - 1) \<le> p" "p < 2 ^ nat bp"
      by (simp_all add: bp_def)
    then have "(of_int (2 ^ nat (bp - 1)) :: rat) \<le> of_int p" "(of_int p :: rat) < of_int (2 ^ nat bp)"
      by (simp_all only: of_int_le_iff of_int_less_iff)
    with bp1 show "(2::rat) powi (bp - 1) \<le> of_int p" "of_int p < (2::rat) powi bp"
      by (simp_all add: power_int_def)
  qed
  have Q: "(2::rat) powi (bq - 1) \<le> of_int q" "of_int q < (2::rat) powi bq"
  proof -
    from bitlen_bounds [OF assms(2)]
    have "2 ^ nat (bq - 1) \<le> q" "q < 2 ^ nat bq"
      by (simp_all add: bq_def)
    then have "(of_int (2 ^ nat (bq - 1)) :: rat) \<le> of_int q" "(of_int q :: rat) < of_int (2 ^ nat bq)"
      by (simp_all only: of_int_le_iff of_int_less_iff)
    with bq1 show "(2::rat) powi (bq - 1) \<le> of_int q" "of_int q < (2::rat) powi bq"
      by (simp_all add: power_int_def)
  qed
  have qpos: "(0::rat) < of_int q" and ppos: "(0::rat) < of_int p"
    using assms by simp_all
  have split: "(2::rat) powi (m + n) = 2 powi m * 2 powi n" for m n :: int
    by (simp add: power_int_add)
  have lower: "(2::rat) powi (d - 1) \<le> of_int p / of_int q"
  proof -
    have "(2::rat) powi (d - 1) * of_int q \<le> 2 powi (d - 1) * 2 powi bq"
      using Q(2) by (intro mult_left_mono) simp_all
    also have "\<dots> = 2 powi (bp - 1)"
      by (simp add: split [symmetric] d_def)
    also have "\<dots> \<le> of_int p"
      by (rule P(1))
    finally show ?thesis
      using qpos by (simp add: field_simps)
  qed
  have upper: "of_int p / of_int q < (2::rat) powi (d + 1)"
  proof -
    have "of_int p < (2::rat) powi bp"
      by (rule P(2))
    also have "\<dots> = 2 powi (d + 1) * 2 powi (bq - 1)"
      by (simp add: split [symmetric] d_def)
    also have "\<dots> \<le> 2 powi (d + 1) * of_int q"
      using Q(1) by (intro mult_left_mono) simp_all
    finally show ?thesis
      using qpos by (simp add: field_simps)
  qed
  have cond: "(if 0 \<le> d then q * 2 ^ nat d \<le> p else q \<le> p * 2 ^ nat (- d))
      \<longleftrightarrow> (2::rat) powi d \<le> of_int p / of_int q"
  proof (cases "0 \<le> d")
    case True
    have "q * 2 ^ nat d \<le> p \<longleftrightarrow> (of_int (q * 2 ^ nat d) :: rat) \<le> of_int p"
      by (simp only: of_int_le_iff)
    also have "\<dots> \<longleftrightarrow> (2::rat) powi d \<le> of_int p / of_int q"
      using True qpos by (simp add: power_int_def field_simps)
    finally show ?thesis
      using True by simp
  next
    case False
    have "q \<le> p * 2 ^ nat (- d) \<longleftrightarrow> (of_int q :: rat) \<le> of_int (p * 2 ^ nat (- d))"
      by (simp only: of_int_le_iff)
    also have "\<dots> \<longleftrightarrow> (2::rat) powi d \<le> of_int p / of_int q"
      using False qpos by (simp add: power_int_def field_simps)
    finally show ?thesis
      using False by simp
  qed
  have L: "floorLog2 p q = (if (2::rat) powi d \<le> of_int p / of_int q then d else d - 1)"
  proof -
    have "floorLog2 p q =
        (if (if 0 \<le> d then q * 2 ^ nat d \<le> p else q \<le> p * 2 ^ nat (- d)) then d else d - 1)"
      by (simp add: floorLog2_def Let_def d_def bp_def bq_def)
    then show ?thesis
      by (simp only: cond)
  qed
  show "(2::rat) powi floorLog2 p q \<le> of_int p / of_int q"
    using lower by (simp add: L)
  show "of_int p / of_int q < (2::rat) powi (floorLog2 p q + 1)"
    using upper by (simp add: L)
qed


lemma roundRatio_error:
  assumes "0 < q"
  shows "\<bar>roundRatio p q - of_int p / of_int q\<bar> \<le> \<bar>of_int p / of_int q\<bar> / 2 ^ 53"
proof (cases "p = 0")
  case True
  then show ?thesis
    by (simp add: roundRatio_def)
next
  case False
  define a e x where "a = \<bar>p\<bar>" and "e = floorLog2 a q - 52"
    and "x = (of_int a / of_int q :: rat)"
  have apos: "0 < a"
    using False by (simp add: a_def)
  have qpos: "(0::rat) < of_int q"
    using assms by simp
  have xpos: "0 < x"
    using apos qpos by (simp add: x_def)
  have lo: "(2::rat) powi (e + 52) \<le> x"
    using floorLog2_bounds(1) [OF apos assms] by (simp add: e_def x_def)
  have two: "(0::rat) < 2 powi k" for k :: int
    by simp
  have split: "(2::rat) powi (m + n) = 2 powi m * 2 powi n" for m n :: int
    by (simp add: power_int_add)
  obtain m where m: "roundRatio p q = of_int (sgn p) * (of_int m * 2 powi e)"
    and err: "\<bar>of_int m - x / 2 powi e\<bar> \<le> (1 / 2 :: rat)"
  proof (cases "0 \<le> e")
    case True
    let ?m = "roundHalfEven a (q * 2 ^ nat e)"
    have "0 < q * 2 ^ nat e"
      using assms by simp
    from roundHalfEven_error [OF this, of a]
    have "\<bar>of_int ?m - x / 2 powi e\<bar> \<le> (1 / 2 :: rat)"
      using True by (simp add: x_def power_int_def)
    moreover have "roundRatio p q = of_int (sgn p) * (of_int ?m * 2 powi e)"
      using False True by (simp add: roundRatio_def Let_def a_def e_def power_int_def)
    ultimately show ?thesis
      by (rule that [rotated])
  next
    case False': False
    let ?m = "roundHalfEven (a * 2 ^ nat (- e)) q"
    from roundHalfEven_error [OF assms, of "a * 2 ^ nat (- e)"]
    have "\<bar>of_int ?m - x / 2 powi e\<bar> \<le> (1 / 2 :: rat)"
      using False' by (simp add: x_def power_int_def field_simps)
    moreover have "roundRatio p q = of_int (sgn p) * (of_int ?m * 2 powi e)"
      using False False' by (simp add: roundRatio_def Let_def a_def e_def power_int_def field_simps)
    ultimately show ?thesis
      by (rule that [rotated])
  qed
  have "p = sgn p * a"
    by (simp add: a_def sgn_if)
  then have "(of_int p :: rat) = of_int (sgn p) * of_int a"
    by (metis of_int_mult)
  then have px: "(of_int p / of_int q :: rat) = of_int (sgn p) * x"
    by (simp add: x_def)
  have sgn1: "\<bar>(of_int (sgn p) :: rat)\<bar> = 1"
    using False by (simp add: sgn_if)
  have "\<bar>roundRatio p q - of_int p / of_int q\<bar> = \<bar>of_int m * 2 powi e - x\<bar>"
  proof -
    have "roundRatio p q - of_int p / of_int q = of_int (sgn p) * (of_int m * 2 powi e - x)"
      by (simp add: m px algebra_simps)
    then show ?thesis
      by (simp add: abs_mult sgn1)
  qed
  also have "\<dots> = \<bar>of_int m - x / 2 powi e\<bar> * 2 powi e"
  proof -
    have "of_int m * 2 powi e - x = (of_int m - x / 2 powi e) * 2 powi e"
      by (simp add: field_simps)
    then show ?thesis
      by (simp add: abs_mult)
  qed
  also have "\<dots> \<le> (1 / 2) * 2 powi e"
    using err by (intro mult_right_mono) simp_all
  also have "\<dots> = 2 powi (e + 52) / 2 ^ 53"
    by (simp add: split)
  also have "\<dots> \<le> x / 2 ^ 53"
    using lo by (simp add: divide_right_mono)
  also have "x = \<bar>of_int p / of_int q\<bar>"
    using xpos by (simp add: px abs_mult sgn1)
  finally show ?thesis .
qed

lemma roundFloat64_error: "\<bar>roundFloat64 r - r\<bar> \<le> \<bar>r\<bar> / 2 ^ 53"
proof -
  obtain p q where pq: "quotient_of r = (p, q)"
    by (cases "quotient_of r")
  then have "0 < q" and "r = of_int p / of_int q"
    by (simp_all add: quotient_of_denom_pos quotient_of_div)
  with roundRatio_error [of q p] pq show ?thesis
    by (simp add: roundFloat64_def)
qed

lemma roundRatio_int_nonpos_exponent:
  assumes "0 < a" and "a < 2 ^ 53"
  shows "roundRatio a 1 = of_int a" and "roundRatio (- a) 1 = - of_int a"
proof -
  have b1: "bitlen 1 = 1"
    by (simp add: compute_bitlen)
  from bitlen_bounds [OF assms(1)] have low: "2 ^ nat (bitlen a - 1) \<le> a"
    by simp
  have ge1: "1 \<le> bitlen a"
    using assms(1) bitlen_eq_zero_iff [of a] bitlen_nonneg [of a] by linarith
  have "bitlen a \<le> 53"
    using assms(2) by (simp add: bitlen_le_iff_power)
  with ge1 low have L: "floorLog2 a 1 = bitlen a - 1"
    by (simp add: floorLog2_def Let_def b1)
  define k where "k = nat (53 - bitlen a)"
  have e: "floorLog2 a 1 - 52 = - int k"
    using \<open>bitlen a \<le> 53\<close> by (simp add: L k_def)
  have r: "roundHalfEven (a * 2 ^ k) 1 = a * 2 ^ k"
    using roundHalfEven_exact [of 1 "a * 2 ^ k"] by simp
  have r0: "roundHalfEven a 1 = a"
    using roundHalfEven_exact [of 1 a] by simp
  show "roundRatio a 1 = of_int a"
    using assms(1) by (simp add: roundRatio_def Let_def e r r0)
  show "roundRatio (- a) 1 = - of_int a"
    using assms(1) by (simp add: roundRatio_def Let_def e r r0)
qed

lemma float64OfInt64_exact:
  assumes "\<bar>n\<bar> \<le> 2 ^ 53"
  shows "float64OfInt64 n = of_int n"
proof -
  have top: "roundRatio (2 ^ 53) 1 = 2 ^ 53" "roundRatio (- (2 ^ 53)) 1 = - (2 ^ 53)"
    by code_simp+
  consider "n = 0" | "0 < n" "n < 2 ^ 53" | "n < 0" "- n < 2 ^ 53" | "n = 2 ^ 53" | "n = - (2 ^ 53)"
    using assms by linarith
  then have "roundRatio n 1 = of_int n"
  proof cases
    case 1
    then show ?thesis by (simp add: roundRatio_def)
  next
    case 2
    then show ?thesis by (simp add: roundRatio_int_nonpos_exponent(1))
  next
    case 3
    with roundRatio_int_nonpos_exponent(2) [of "- n"] show ?thesis by simp
  next
    case 4
    with top(1) show ?thesis by simp
  next
    case 5
    with top(2) show ?thesis by simp
  qed
  then show ?thesis
    by (simp add: float64OfInt64_def roundFloat64_def)
qed

lemma float64Div_error:
  "\<bar>float64Div x y - x / y\<bar> \<le> \<bar>x / y\<bar> / 2 ^ 53"
  by (simp only: float64Div_def roundFloat64_error)

lemma float64_500m: "float64Div (float64OfInt64 500) 1000 = 1 / 2"
  by code_simp

lemma float64_128Mi: "float64OfInt64 134217728 = 134217728"
  by code_simp

lemma float64_100m:
  "float64Div (float64OfInt64 100) 1000 = 3602879701896397 / 36028797018963968"
  by code_simp

lemma float64_9007199254740993: "float64OfInt64 9007199254740993 = 9007199254740992"
  by code_simp

subsection \<open>The loops as list functions\<close>

lemma appendResourceMetric_acc:
  "appendResourceMetric c ms e = ms @ appendResourceMetric c [] e"
  by (simp add: appendResourceMetric_def Let_def)

lemma foldl_appendResourceMetric:
  "foldl (appendResourceMetric c) ms rs = ms @ concat (map (appendResourceMetric c []) rs)"
proof (induction rs arbitrary: ms)
  case Nil
  show ?case by simp
next
  case (Cons e rs)
  have "foldl (appendResourceMetric c) ms (e # rs)
      = foldl (appendResourceMetric c) (ms @ appendResourceMetric c [] e) rs"
    using appendResourceMetric_acc [of c ms e] by simp
  then show ?case
    by (simp add: Cons.IH)
qed

lemma vpaResourcesToMetrics_concat:
  "vpaResourcesToMetrics c rs = concat (map (resourceMetrics c) rs)"
  unfolding resourceMetrics_def [abs_def]
  by (simp add: vpaResourcesToMetrics_def foldl_appendResourceMetric map_concat comp_def)

lemmas sanitize_defs =
  sanitizeLabelName_def sanitizeChar_def isLetter_def isDigit_def startsWithLetterOrUnderscore_def

lemmas resource_consts =
  ResourceCPU_def ResourceMemory_def ResourceStorage_def ResourceEphemeralStorage_def
  UnitCore_def UnitByte_def

lemma resourceMetrics_cases:
  "resourceMetrics c (n, q) =
     (if n = ''cpu'' then
        [\<lparr>LabelKeys = [''container'', ''resource'', ''unit''],
          LabelValues = [c, ''cpu'', ''core''],
          Value = float64Div (float64OfInt64 (MilliValue q)) 1000\<rparr>]
      else if n = ''memory'' \<or> n = ''storage'' \<or> n = ''ephemeral-storage'' then
        [\<lparr>LabelKeys = [''container'', ''resource'', ''unit''],
          LabelValues = [c, if n = ''ephemeral-storage'' then ''ephemeral_storage'' else n, ''byte''],
          Value = float64OfInt64 (Quantity_Value q)\<rparr>]
      else [])"
  by (auto simp add: resourceMetrics_def appendResourceMetric_def resource_consts sanitize_defs)

lemma resourceMetrics_parity:
  "m \<in> set (resourceMetrics c e) \<Longrightarrow> length (LabelKeys m) = length (LabelValues m)"
  by (cases e) (auto simp add: resourceMetrics_cases split: if_splits)

lemma vpaResourcesToMetrics_parity:
  "m \<in> set (vpaResourcesToMetrics c rs) \<Longrightarrow> length (LabelKeys m) = length (LabelValues m)"
  by (auto simp add: vpaResourcesToMetrics_concat dest: resourceMetrics_parity)

lemma foldl_append_concat:
  "foldl (\<lambda>ms c. ms @ g c) acc cs = acc @ concat (map g cs)"
  by (induction cs arbitrary: acc) simp_all

lemma containerPoliciesFunc_Metrics:
  "Metrics (containerPoliciesFunc field a) =
     (case ResourcePolicy (Spec a) of
        None \<Rightarrow> []
      | Some rp \<Rightarrow>
          (case ContainerPolicies rp of
             None \<Rightarrow> []
           | Some cps \<Rightarrow>
               concat (map (\<lambda>c. vpaResourcesToMetrics (Policy_ContainerName c) (field c)) cps)))"
  by (simp add: containerPoliciesFunc_def foldl_append_concat split: option.splits)

lemma containerRecommendationsFunc_Metrics:
  "Metrics (containerRecommendationsFunc field a) =
     (case Recommendation (Status a) of
        None \<Rightarrow> []
      | Some r \<Rightarrow>
          (case ContainerRecommendations r of
             None \<Rightarrow> []
           | Some crs \<Rightarrow>
               concat (map (\<lambda>c. vpaResourcesToMetrics (ContainerName c) (field c)) crs)))"
  by (simp add: containerRecommendationsFunc_def foldl_append_concat split: option.splits)

lemma vpaUpdateModeFunc_Metrics:
  "Metrics (vpaUpdateModeFunc a) =
     (case Option.bind (UpdatePolicy (Spec a)) UpdateMode of
        None \<Rightarrow> []
      | Some um \<Rightarrow>
          map (\<lambda>mode. \<lparr>LabelKeys = [''update_mode''], LabelValues = [mode],
                       Value = (if um = mode then 1 else 0)\<rparr>)
            [''Off'', ''Initial'', ''Recreate'', ''Auto''])"
  by (simp add: vpaUpdateModeFunc_def appendUpdateModeMetric_def UpdateModeOff_def
      UpdateModeInitial_def UpdateModeRecreate_def UpdateModeAuto_def split: option.splits)

lemma vpaAnnotationsFunc_Metrics:
  "Metrics (vpaAnnotationsFunc al a) =
     [\<lparr>LabelKeys = fst (createPrometheusLabelKeysValues ''annotation'' (Annotations a) al),
       LabelValues = snd (createPrometheusLabelKeysValues ''annotation'' (Annotations a) al),
       Value = 1\<rparr>]"
  by (simp add: vpaAnnotationsFunc_def split: prod.splits)

lemma vpaLabelsFunc_Metrics:
  "Metrics (vpaLabelsFunc al a) =
     [\<lparr>LabelKeys = fst (createPrometheusLabelKeysValues ''label'' (Labels a) al),
       LabelValues = snd (createPrometheusLabelKeysValues ''label'' (Labels a) al),
       Value = 1\<rparr>]"
  by (simp add: vpaLabelsFunc_def split: prod.splits)

lemma typed_parity:
  assumes "g \<in> set (vpaTypedFuncs aA aL)" and "m \<in> set (Metrics (g a))"
  shows "length (LabelKeys m) = length (LabelValues m)"
proof -
  have ann: "\<And>al. m \<in> set (Metrics (vpaAnnotationsFunc al a)) \<Longrightarrow> ?thesis"
    by (auto simp add: vpaAnnotationsFunc_Metrics createPrometheusLabelKeysValues_def Let_def)
  have lab: "\<And>al. m \<in> set (Metrics (vpaLabelsFunc al a)) \<Longrightarrow> ?thesis"
    by (auto simp add: vpaLabelsFunc_Metrics createPrometheusLabelKeysValues_def Let_def)
  have upd: "m \<in> set (Metrics (vpaUpdateModeFunc a)) \<Longrightarrow> ?thesis"
    by (auto simp add: vpaUpdateModeFunc_Metrics split: option.splits)
  have pol: "\<And>field. m \<in> set (Metrics (containerPoliciesFunc field a)) \<Longrightarrow> ?thesis"
    by (auto simp add: containerPoliciesFunc_Metrics split: option.splits
        dest: vpaResourcesToMetrics_parity)
  have rec: "\<And>field. m \<in> set (Metrics (containerRecommendationsFunc field a)) \<Longrightarrow> ?thesis"
    by (auto simp add: containerRecommendationsFunc_Metrics split: option.splits
        dest: vpaResourcesToMetrics_parity)
  from assms(1) consider
      "g = vpaAnnotationsFunc aA" | "g = vpaLabelsFunc aL" | "g = vpaUpdateModeFunc"
    | "g = containerPoliciesFunc MinAllowed" | "g = containerPoliciesFunc MaxAllowed"
    | "g = containerRecommendationsFunc LowerBound" | "g = containerRecommendationsFunc UpperBound"
    | "g = containerRecommendationsFunc Target" | "g = containerRecommendationsFunc UncappedTarget"
    by (auto simp add: vpaTypedFuncs_def vpaMinAllowedFunc_def vpaMaxAllowedFunc_def
        vpaLowerBoundFunc_def vpaUpperBoundFunc_def vpaTargetFunc_def vpaUncappedTargetFunc_def)
  then show ?thesis
    using assms(2) ann lab upd pol rec by cases blast+
qed

subsection \<open>The wrapper on a VerticalPodAutoscaler\<close>

lemma length_defaultLabelValues: "length (defaultLabelValues vpa) = 5"
  by (simp add: defaultLabelValues_def Let_def)

lemma length_defaultLabels: "length descVerticalPodAutoscalerLabelsDefaultLabels = 5"
  by (simp add: descVerticalPodAutoscalerLabelsDefaultLabels_def)

lemma wrapVPAFunc_Inr:
  "wrapVPAFunc f (VerticalPodAutoscalerObject vpa) =
     Inr ((f vpa)\<lparr>Metrics := map (prependDefaultLabels vpa) (Metrics (f vpa))\<rparr>)"
  by (simp add: wrapVPAFunc_def Let_def)

lemma GenerateFunc_vpaMetricFamilies:
  "map GenerateFunc (vpaMetricFamilies aA aL) = map wrapVPAFunc (vpaTypedFuncs aA aL)"
  by (simp add: vpaMetricFamilies_def vpaTypedFuncs_def NewFamilyGenerator_def)

lemmas example_defs =
  exampleVPA_def exampleVPAReordered_def exampleVPAWith_def exampleSpec_def exampleStatus_def
  exampleResources_def exampleResourcesReordered_def quantity_500m_def quantity_128Mi_def
  bareVPA_def exampleAllowList_def

section \<open>The claims\<close>

text \<open>
  C2. For every VerticalPodAutoscaler object and every typed generator \<open>f\<close>, the wrapped
  generator returns a Family with as many Metrics as \<open>f\<close> returns, and in each of them
  the first five label keys are namespace, verticalpodautoscaler, target_api_version,
  target_kind, target_name, the first five label values are the object's namespace and
  name and the apiVersion, kind and name of \<^verbatim>\<open>Spec.TargetRef\<close>, and the rest are the keys
  and values \<open>f\<close> produced. When \<^verbatim>\<open>Spec.TargetRef\<close> is nil the three target values are
  empty strings and the call still returns. Here \<open>f\<close> ranges over closures whose Family
  holds every Metric once, as the nine closures of this file do.
\<close>

theorem wrapVPAFunc_prepends_default_labels:
  "\<exists>fam. wrapVPAFunc f (VerticalPodAutoscalerObject vpa) = Inr fam
     \<and> length (Metrics fam) = length (Metrics (f vpa))
     \<and> (\<forall>i < length (Metrics (f vpa)).
          take 5 (LabelKeys (Metrics fam ! i)) =
            [''namespace'', ''verticalpodautoscaler'', ''target_api_version'', ''target_kind'',
             ''target_name'']
          \<and> drop 5 (LabelKeys (Metrics fam ! i)) = LabelKeys (Metrics (f vpa) ! i)
          \<and> take 5 (LabelValues (Metrics fam ! i)) =
              [Namespace vpa, ObjectMeta_Name vpa,
               (case TargetRef (Spec vpa) of None \<Rightarrow> '''' | Some r \<Rightarrow> APIVersion r),
               (case TargetRef (Spec vpa) of None \<Rightarrow> '''' | Some r \<Rightarrow> Kind r),
               (case TargetRef (Spec vpa) of None \<Rightarrow> '''' | Some r \<Rightarrow> TargetRef_Name r)]
          \<and> drop 5 (LabelValues (Metrics fam ! i)) = LabelValues (Metrics (f vpa) ! i))"
  by (simp add: wrapVPAFunc_Inr prependDefaultLabels_def defaultLabelValues_def
      descVerticalPodAutoscalerLabelsDefaultLabels_def split: option.splits)

text \<open>The object without a target reference, under the annotations generator.\<close>

theorem wrapVPAFunc_prepends_default_labels_witness:
  "(0::nat) < length (Metrics (vpaAnnotationsFunc Wildcard bareVPA))
   \<and> wrapVPAFunc (vpaAnnotationsFunc Wildcard) (VerticalPodAutoscalerObject bareVPA) =
       Inr \<lparr>Metrics = [\<lparr>LabelKeys = [''namespace'', ''verticalpodautoscaler'',
                                     ''target_api_version'', ''target_kind'', ''target_name''],
                        LabelValues = [''ns1'', ''vpa2'', '''', '''', ''''],
                        Value = 1\<rparr>]\<rparr>"
proof -
  have len: "(0::nat) < length (Metrics (vpaAnnotationsFunc Wildcard bareVPA))"
    by (simp add: vpaAnnotationsFunc_Metrics)
  obtain fam where fam:
    "wrapVPAFunc (vpaAnnotationsFunc Wildcard) (VerticalPodAutoscalerObject bareVPA) = Inr fam"
    and one: "length (Metrics fam) = length (Metrics (vpaAnnotationsFunc Wildcard bareVPA))"
    and keys: "take 5 (LabelKeys (Metrics fam ! 0)) =
       [''namespace'', ''verticalpodautoscaler'', ''target_api_version'', ''target_kind'',
        ''target_name'']"
    and keys': "drop 5 (LabelKeys (Metrics fam ! 0)) =
       LabelKeys (Metrics (vpaAnnotationsFunc Wildcard bareVPA) ! 0)"
    and vals: "take 5 (LabelValues (Metrics fam ! 0)) =
       [Namespace bareVPA, ObjectMeta_Name bareVPA,
        (case TargetRef (Spec bareVPA) of None \<Rightarrow> '''' | Some r \<Rightarrow> APIVersion r),
        (case TargetRef (Spec bareVPA) of None \<Rightarrow> '''' | Some r \<Rightarrow> Kind r),
        (case TargetRef (Spec bareVPA) of None \<Rightarrow> '''' | Some r \<Rightarrow> TargetRef_Name r)]"
    and vals': "drop 5 (LabelValues (Metrics fam ! 0)) =
       LabelValues (Metrics (vpaAnnotationsFunc Wildcard bareVPA) ! 0)"
    using wrapVPAFunc_prepends_default_labels [of "vpaAnnotationsFunc Wildcard" bareVPA] len
    by blast
  have inner: "Metrics (vpaAnnotationsFunc Wildcard bareVPA) =
      [\<lparr>LabelKeys = [], LabelValues = [], Value = 1\<rparr>]"
    by (simp add: vpaAnnotationsFunc_Metrics createPrometheusLabelKeysValues_def
        allowedEntries_def bareVPA_def)
  have "wrapVPAFunc (vpaAnnotationsFunc Wildcard) (VerticalPodAutoscalerObject bareVPA) =
       Inr \<lparr>Metrics = [\<lparr>LabelKeys = [''namespace'', ''verticalpodautoscaler'',
                                     ''target_api_version'', ''target_kind'', ''target_name''],
                        LabelValues = [''ns1'', ''vpa2'', '''', '''', ''''],
                        Value = 1\<rparr>]\<rparr>"
    by (simp add: wrapVPAFunc_Inr vpaAnnotationsFunc_def createPrometheusLabelKeysValues_def
        allowedEntries_def prependDefaultLabels_def defaultLabelValues_def
        descVerticalPodAutoscalerLabelsDefaultLabels_def bareVPA_def)
  with len show ?thesis by simp
qed

text \<open>
  C4. When \<^verbatim>\<open>Spec.UpdatePolicy\<close> or its \<^verbatim>\<open>UpdateMode\<close> is nil, the update-mode generator
  returns a Family with no Metric; when \<^verbatim>\<open>Spec.ResourcePolicy\<close> or its
  \<^verbatim>\<open>ContainerPolicies\<close> is nil, so do the minallowed and maxallowed generators; when
  \<^verbatim>\<open>Status.Recommendation\<close> or its \<^verbatim>\<open>ContainerRecommendations\<close> is nil, so do the
  lowerbound, upperbound, target and uncappedtarget generators. This holds for the
  typed closure and for the wrapped generator, which returns and does not panic.
\<close>

theorem unset_optional_substructure_gives_empty_family:
  "(Option.bind (UpdatePolicy (Spec a)) UpdateMode = None \<longrightarrow>
      vpaUpdateModeFunc a = \<lparr>Metrics = []\<rparr>
      \<and> wrapVPAFunc vpaUpdateModeFunc (VerticalPodAutoscalerObject a) = Inr \<lparr>Metrics = []\<rparr>)
   \<and> (Option.bind (ResourcePolicy (Spec a)) ContainerPolicies = None \<longrightarrow>
        (\<forall>g \<in> {vpaMinAllowedFunc, vpaMaxAllowedFunc}.
           g a = \<lparr>Metrics = []\<rparr>
           \<and> wrapVPAFunc g (VerticalPodAutoscalerObject a) = Inr \<lparr>Metrics = []\<rparr>))
   \<and> (Option.bind (Recommendation (Status a)) ContainerRecommendations = None \<longrightarrow>
        (\<forall>g \<in> {vpaLowerBoundFunc, vpaUpperBoundFunc, vpaTargetFunc, vpaUncappedTargetFunc}.
           g a = \<lparr>Metrics = []\<rparr>
           \<and> wrapVPAFunc g (VerticalPodAutoscalerObject a) = Inr \<lparr>Metrics = []\<rparr>))"
  by (auto simp add: wrapVPAFunc_Inr vpaUpdateModeFunc_def containerPoliciesFunc_def
      containerRecommendationsFunc_def vpaMinAllowedFunc_def vpaMaxAllowedFunc_def
      vpaLowerBoundFunc_def vpaUpperBoundFunc_def vpaTargetFunc_def vpaUncappedTargetFunc_def
      Option.bind_eq_None_conv
      split: option.splits)

text \<open>
  Two objects: one with no policy and no recommendation at all, one whose update
  policy is set while its update mode is nil.
\<close>

theorem unset_optional_substructure_gives_empty_family_witness:
  "Option.bind (UpdatePolicy (Spec bareVPA)) UpdateMode = None
   \<and> Option.bind (ResourcePolicy (Spec bareVPA)) ContainerPolicies = None
   \<and> Option.bind (Recommendation (Status bareVPA)) ContainerRecommendations = None
   \<and> wrapVPAFunc vpaUpdateModeFunc (VerticalPodAutoscalerObject bareVPA) = Inr \<lparr>Metrics = []\<rparr>
   \<and> wrapVPAFunc vpaMaxAllowedFunc (VerticalPodAutoscalerObject bareVPA) = Inr \<lparr>Metrics = []\<rparr>
   \<and> wrapVPAFunc vpaTargetFunc (VerticalPodAutoscalerObject bareVPA) = Inr \<lparr>Metrics = []\<rparr>
   \<and> Option.bind
       (UpdatePolicy (Spec (bareVPA\<lparr>Spec := (Spec bareVPA)\<lparr>UpdatePolicy := Some \<lparr>UpdateMode = None\<rparr>\<rparr>\<rparr>)))
       UpdateMode = None
   \<and> vpaUpdateModeFunc
       (bareVPA\<lparr>Spec := (Spec bareVPA)\<lparr>UpdatePolicy := Some \<lparr>UpdateMode = None\<rparr>\<rparr>\<rparr>) =
     \<lparr>Metrics = []\<rparr>"
proof -
  have h1: "Option.bind (UpdatePolicy (Spec bareVPA)) UpdateMode = None"
    and h2: "Option.bind (ResourcePolicy (Spec bareVPA)) ContainerPolicies = None"
    and h3: "Option.bind (Recommendation (Status bareVPA)) ContainerRecommendations = None"
    and h4: "Option.bind
       (UpdatePolicy (Spec (bareVPA\<lparr>Spec := (Spec bareVPA)\<lparr>UpdatePolicy := Some \<lparr>UpdateMode = None\<rparr>\<rparr>\<rparr>)))
       UpdateMode = None"
    by (simp_all add: bareVPA_def)
  show ?thesis
    using h1 h2 h3 h4
      unset_optional_substructure_gives_empty_family [of bareVPA]
      unset_optional_substructure_gives_empty_family
        [of "bareVPA\<lparr>Spec := (Spec bareVPA)\<lparr>UpdatePolicy := Some \<lparr>UpdateMode = None\<rparr>\<rparr>\<rparr>"]
    by simp
qed

text \<open>
  C6, as stated: an object that is not a VerticalPodAutoscaler yields an empty Family.
  The type assertion of \<^verbatim>\<open>wrapVPAFunc\<close> has the one-result form, so the call panics and
  no Family is returned.
\<close>

theorem wrapVPAFunc_other_object_counterexample:
  "wrapVPAFunc vpaUpdateModeFunc OtherObject = Inl TypeAssertionPanic
   \<and> wrapVPAFunc vpaUpdateModeFunc OtherObject \<noteq> Inr \<lparr>Metrics = []\<rparr>"
  by (simp add: wrapVPAFunc_def)

text \<open>
  C6, amended. A function returned by \<^verbatim>\<open>wrapVPAFunc\<close> returns a Family exactly for a
  VerticalPodAutoscaler. On an object of any other variant the type assertion panics;
  on a nil pointer of the right type the dereference panics. In both cases no Family
  is returned and the wrapper reports nothing itself.
\<close>

theorem wrapVPAFunc_panics_unless_VerticalPodAutoscaler:
  "wrapVPAFunc f OtherObject = Inl TypeAssertionPanic
   \<and> wrapVPAFunc f NilVerticalPodAutoscaler = Inl NilPointerPanic
   \<and> (\<exists>fam. wrapVPAFunc f (VerticalPodAutoscalerObject vpa) = Inr fam)"
  by (simp add: wrapVPAFunc_def Let_def)

text \<open>
  C7. Wrapping leaves the declared name, help text and kind of a generator as they
  were given to \<^verbatim>\<open>NewFamilyGenerator\<close>. On every VerticalPodAutoscaler the wrapped
  generator returns as many Metrics as the typed closure, with the same numeric values
  in the same order, and the label keys and values of each Metric end with the keys
  and values the closure produced: labels are only added in front. On an object that
  is not a VerticalPodAutoscaler no Family is returned at all (see C6).
\<close>

theorem wrapVPAFunc_frame:
  "Name (NewFamilyGenerator name help metricType deprecatedVersion (wrapVPAFunc f)) = name
   \<and> Help (NewFamilyGenerator name help metricType deprecatedVersion (wrapVPAFunc f)) = help
   \<and> Type (NewFamilyGenerator name help metricType deprecatedVersion (wrapVPAFunc f)) = metricType
   \<and> (\<exists>fam. wrapVPAFunc f (VerticalPodAutoscalerObject vpa) = Inr fam
        \<and> length (Metrics fam) = length (Metrics (f vpa))
        \<and> map Value (Metrics fam) = map Value (Metrics (f vpa))
        \<and> (\<forall>i < length (Metrics (f vpa)).
             (\<exists>ks. LabelKeys (Metrics fam ! i) = ks @ LabelKeys (Metrics (f vpa) ! i))
             \<and> (\<exists>vs. LabelValues (Metrics fam ! i) = vs @ LabelValues (Metrics (f vpa) ! i))))"
  by (simp add: NewFamilyGenerator_def wrapVPAFunc_Inr prependDefaultLabels_def comp_def)

lemma vpaUpdateModeFunc_exampleVPA:
  "Metrics (vpaUpdateModeFunc exampleVPA) =
     [\<lparr>LabelKeys = [''update_mode''], LabelValues = [''Off''], Value = 0\<rparr>,
      \<lparr>LabelKeys = [''update_mode''], LabelValues = [''Initial''], Value = 0\<rparr>,
      \<lparr>LabelKeys = [''update_mode''], LabelValues = [''Recreate''], Value = 1\<rparr>,
      \<lparr>LabelKeys = [''update_mode''], LabelValues = [''Auto''], Value = 0\<rparr>]"
  by (simp add: vpaUpdateModeFunc_Metrics exampleVPA_def exampleVPAWith_def exampleSpec_def)

lemma defaultLabelValues_exampleVPA:
  "defaultLabelValues exampleVPA =
     [''ns1'', ''vpa1'', ''apps/v1'', ''Deployment'', ''deployment1'']"
  by (simp add: defaultLabelValues_def example_defs)

lemma defaultLabelValues_bareVPA:
  "defaultLabelValues bareVPA = [''ns1'', ''vpa2'', '''', '''', '''']"
  by (simp add: defaultLabelValues_def example_defs)

text \<open>The third Metric of the update-mode generator on the example object.\<close>

theorem wrapVPAFunc_frame_witness:
  "(2::nat) < length (Metrics (vpaUpdateModeFunc exampleVPA))
   \<and> Value (Metrics (vpaUpdateModeFunc exampleVPA) ! 2) = 1
   \<and> LabelKeys (Metrics (vpaUpdateModeFunc exampleVPA) ! 2) = [''update_mode'']
   \<and> (\<exists>fam. wrapVPAFunc vpaUpdateModeFunc (VerticalPodAutoscalerObject exampleVPA) = Inr fam
        \<and> length (Metrics fam) = 4
        \<and> Value (Metrics fam ! 2) = 1
        \<and> LabelKeys (Metrics fam ! 2) =
            [''namespace'', ''verticalpodautoscaler'', ''target_api_version'', ''target_kind'',
             ''target_name'', ''update_mode''])"
proof -
  have two: "(2::nat) = Suc (Suc 0)"
    by simp
  show ?thesis
    using wrapVPAFunc_frame
      [of "''kube_verticalpodautoscaler_spec_updatepolicy_updatemode''"
          "''Update mode of the VerticalPodAutoscaler.''" Gauge "''''"
          vpaUpdateModeFunc exampleVPA]
    unfolding two
    by (simp add: vpaUpdateModeFunc_exampleVPA wrapVPAFunc_Inr prependDefaultLabels_def
        defaultLabelValues_exampleVPA descVerticalPodAutoscalerLabelsDefaultLabels_def)
qed

text \<open>
  C9. When \<^verbatim>\<open>Spec.UpdatePolicy\<close> and its \<^verbatim>\<open>UpdateMode\<close> are set, the update-mode closure
  returns four Metrics, for Off, Initial, Recreate and Auto in this order, each with
  the one key update_mode and the mode's name as its value, and with the numeric value
  1 when the object's mode is that mode and 0 otherwise. At most one of them carries
  1, and all carry 0 when the object's mode is none of the four. The wrapper keeps the
  four values and puts the default labels in front of the key and of the value.
\<close>

theorem update_mode_generator:
  assumes "UpdatePolicy (Spec a) = Some updatePolicy" and "UpdateMode updatePolicy = Some um"
  shows "Metrics (vpaUpdateModeFunc a) =
           [\<lparr>LabelKeys = [''update_mode''], LabelValues = [''Off''],
             Value = (if um = ''Off'' then 1 else 0)\<rparr>,
            \<lparr>LabelKeys = [''update_mode''], LabelValues = [''Initial''],
             Value = (if um = ''Initial'' then 1 else 0)\<rparr>,
            \<lparr>LabelKeys = [''update_mode''], LabelValues = [''Recreate''],
             Value = (if um = ''Recreate'' then 1 else 0)\<rparr>,
            \<lparr>LabelKeys = [''update_mode''], LabelValues = [''Auto''],
             Value = (if um = ''Auto'' then 1 else 0)\<rparr>]
         \<and> length (filter (\<lambda>m. Value m = 1) (Metrics (vpaUpdateModeFunc a))) \<le> 1
         \<and> (um \<notin> {''Off'', ''Initial'', ''Recreate'', ''Auto''} \<longrightarrow>
              map Value (Metrics (vpaUpdateModeFunc a)) = [0, 0, 0, 0])
         \<and> (\<exists>fam. wrapVPAFunc vpaUpdateModeFunc (VerticalPodAutoscalerObject a) = Inr fam
              \<and> map Value (Metrics fam) = map Value (Metrics (vpaUpdateModeFunc a))
              \<and> map (drop 5 \<circ> LabelKeys) (Metrics fam) =
                  [ [''update_mode''], [''update_mode''], [''update_mode''], [''update_mode''] ]
              \<and> map (drop 5 \<circ> LabelValues) (Metrics fam) =
                  [ [''Off''], [''Initial''], [''Recreate''], [''Auto''] ])"
  using assms
  by (simp add: vpaUpdateModeFunc_Metrics wrapVPAFunc_Inr prependDefaultLabels_def
      length_defaultLabelValues length_defaultLabels)

text \<open>The example object, in mode Recreate, and an object in a mode outside the four.\<close>

theorem update_mode_generator_witness:
  "UpdatePolicy (Spec exampleVPA) = Some \<lparr>UpdateMode = Some ''Recreate''\<rparr>
   \<and> UpdateMode \<lparr>UpdateMode = Some ''Recreate''\<rparr> = Some ''Recreate''
   \<and> map Value (Metrics (vpaUpdateModeFunc exampleVPA)) = [0, 0, 1, 0]
   \<and> UpdatePolicy (Spec (bareVPA\<lparr>Spec := (Spec bareVPA)\<lparr>UpdatePolicy := Some \<lparr>UpdateMode = Some ''Unknown''\<rparr>\<rparr>\<rparr>))
       = Some \<lparr>UpdateMode = Some ''Unknown''\<rparr>
   \<and> ''Unknown'' \<notin> {''Off'', ''Initial'', ''Recreate'', ''Auto''}
   \<and> map Value (Metrics (vpaUpdateModeFunc
        (bareVPA\<lparr>Spec := (Spec bareVPA)\<lparr>UpdatePolicy := Some \<lparr>UpdateMode = Some ''Unknown''\<rparr>\<rparr>\<rparr>)))
       = [0, 0, 0, 0]"
proof -
  have h1: "UpdatePolicy (Spec exampleVPA) = Some \<lparr>UpdateMode = Some ''Recreate''\<rparr>"
    by (simp add: exampleVPA_def exampleVPAWith_def exampleSpec_def)
  have h2: "UpdateMode \<lparr>UpdateMode = Some ''Recreate''\<rparr> = Some ''Recreate''"
    by simp
  have h3: "UpdatePolicy (Spec (bareVPA\<lparr>Spec := (Spec bareVPA)\<lparr>UpdatePolicy := Some \<lparr>UpdateMode = Some ''Unknown''\<rparr>\<rparr>\<rparr>))
       = Some \<lparr>UpdateMode = Some ''Unknown''\<rparr>"
    by simp
  have h4: "UpdateMode \<lparr>UpdateMode = Some ''Unknown''\<rparr> = Some ''Unknown''"
    by simp
  have h5: "''Unknown'' \<notin> {''Off'', ''Initial'', ''Recreate'', ''Auto''}"
    by simp
  show ?thesis
    using update_mode_generator [OF h1 h2] update_mode_generator [OF h3 h4] h1 h3 h5
    by simp
qed

text \<open>
  C8. The list function made by \<^verbatim>\<open>createVPAListWatchFunc\<close> is the \<^verbatim>\<open>List\<close> of the
  client's \<^verbatim>\<open>VerticalPodAutoscalers(ns)\<close> at the given options, and the watch function is
  its \<^verbatim>\<open>Watch\<close>: as transformers of the outside world they are the one client call and
  nothing more. On the recording client, one call of either function adds exactly one
  entry to the log, with the namespace and the options it was given.
\<close>

theorem createVPAListWatchFunc_threads_parameters:
  "ListFunc (createVPAListWatchFunc vpaClient kubeClient ns) opts =
     List (VerticalPodAutoscalers (AutoscalingV1beta2 vpaClient) ns) Context_TODO opts
   \<and> WatchFunc (createVPAListWatchFunc vpaClient kubeClient ns) opts =
       Watch (VerticalPodAutoscalers (AutoscalingV1beta2 vpaClient) ns) Context_TODO opts
   \<and> snd (ListFunc (createVPAListWatchFunc recordingClient kubeClient ns) opts calls) =
       calls @ [ListCall ns Context_TODO opts]
   \<and> snd (WatchFunc (createVPAListWatchFunc recordingClient kubeClient ns) opts calls) =
       calls @ [WatchCall ns Context_TODO opts]"
  by (simp add: createVPAListWatchFunc_def recordingClient_def)

subsection \<open>The label composer on an allow-list that lets nothing through\<close>

lemma allowedEntries_passesNoKeys:
  "passesNoKeys al kvs \<Longrightarrow> allowedEntries kvs al = []"
proof (cases al)
  case Wildcard
  assume "passesNoKeys al kvs"
  with Wildcard show ?thesis
    by (simp add: passesNoKeys_def allowedEntries_def)
next
  case (Explicit ks)
  assume "passesNoKeys al kvs"
  with Explicit have "\<forall>k \<in> set ks. lookupAllowed kvs k = []"
    by (auto simp add: passesNoKeys_def lookupAllowed_def list_all_iff map_of_eq_None_iff
        split: option.splits)
  then have "concat (map (lookupAllowed kvs) ks) = []"
    by simp
  with Explicit show ?thesis
    by (simp add: allowedEntries_def)
qed

lemma createPrometheusLabelKeysValues_passesNoKeys:
  "passesNoKeys al kvs \<Longrightarrow> createPrometheusLabelKeysValues p kvs al = ([], [])"
  by (simp add: createPrometheusLabelKeysValues_def allowedEntries_passesNoKeys)

lemma passesNoKeys_empty: "passesNoKeys al []"
  by (cases al) (simp_all add: passesNoKeys_def list_all_iff)

lemma createPrometheusLabelKeysValues_none:
  "kvs = [] \<or> passesNoKeys al kvs \<Longrightarrow> createPrometheusLabelKeysValues p kvs al = ([], [])"
  using createPrometheusLabelKeysValues_passesNoKeys passesNoKeys_empty by blast

text \<open>
  C10. For every object and all allow-lists, the annotations closure and the labels
  closure each return a Family of exactly one Metric with the value 1, and so do the
  wrapped generators, whose Metric carries the default labels followed by the composed
  ones. When the map is empty or the allow-list lets none of its keys through, nothing
  is composed and the Metric carries the default labels only.
\<close>

theorem annotations_and_labels_generators_one_metric:
  "(\<exists>ks vs. vpaAnnotationsFunc allowAnnotationsList a =
        \<lparr>Metrics = [\<lparr>LabelKeys = ks, LabelValues = vs, Value = 1\<rparr>]\<rparr>
      \<and> wrapVPAFunc (vpaAnnotationsFunc allowAnnotationsList) (VerticalPodAutoscalerObject a) =
          Inr \<lparr>Metrics = [\<lparr>LabelKeys = descVerticalPodAutoscalerLabelsDefaultLabels @ ks,
                           LabelValues = defaultLabelValues a @ vs, Value = 1\<rparr>]\<rparr>
      \<and> (Annotations a = [] \<or> passesNoKeys allowAnnotationsList (Annotations a) \<longrightarrow>
           ks = [] \<and> vs = []))
   \<and> (\<exists>ks vs. vpaLabelsFunc allowLabelsList a =
        \<lparr>Metrics = [\<lparr>LabelKeys = ks, LabelValues = vs, Value = 1\<rparr>]\<rparr>
      \<and> wrapVPAFunc (vpaLabelsFunc allowLabelsList) (VerticalPodAutoscalerObject a) =
          Inr \<lparr>Metrics = [\<lparr>LabelKeys = descVerticalPodAutoscalerLabelsDefaultLabels @ ks,
                           LabelValues = defaultLabelValues a @ vs, Value = 1\<rparr>]\<rparr>
      \<and> (Labels a = [] \<or> passesNoKeys allowLabelsList (Labels a) \<longrightarrow>
           ks = [] \<and> vs = []))"
proof -
  have A: "\<exists>ks vs. vpaAnnotationsFunc allowAnnotationsList a =
        \<lparr>Metrics = [\<lparr>LabelKeys = ks, LabelValues = vs, Value = 1\<rparr>]\<rparr>
      \<and> wrapVPAFunc (vpaAnnotationsFunc allowAnnotationsList) (VerticalPodAutoscalerObject a) =
          Inr \<lparr>Metrics = [\<lparr>LabelKeys = descVerticalPodAutoscalerLabelsDefaultLabels @ ks,
                           LabelValues = defaultLabelValues a @ vs, Value = 1\<rparr>]\<rparr>
      \<and> (Annotations a = [] \<or> passesNoKeys allowAnnotationsList (Annotations a) \<longrightarrow>
           ks = [] \<and> vs = [])"
    using createPrometheusLabelKeysValues_none
      [of "Annotations a" allowAnnotationsList "''annotation''"]
    by (cases "createPrometheusLabelKeysValues ''annotation'' (Annotations a) allowAnnotationsList")
      (auto simp add: vpaAnnotationsFunc_def wrapVPAFunc_Inr prependDefaultLabels_def)
  have L: "\<exists>ks vs. vpaLabelsFunc allowLabelsList a =
        \<lparr>Metrics = [\<lparr>LabelKeys = ks, LabelValues = vs, Value = 1\<rparr>]\<rparr>
      \<and> wrapVPAFunc (vpaLabelsFunc allowLabelsList) (VerticalPodAutoscalerObject a) =
          Inr \<lparr>Metrics = [\<lparr>LabelKeys = descVerticalPodAutoscalerLabelsDefaultLabels @ ks,
                           LabelValues = defaultLabelValues a @ vs, Value = 1\<rparr>]\<rparr>
      \<and> (Labels a = [] \<or> passesNoKeys allowLabelsList (Labels a) \<longrightarrow>
           ks = [] \<and> vs = [])"
    using createPrometheusLabelKeysValues_none [of "Labels a" allowLabelsList "''label''"]
    by (cases "createPrometheusLabelKeysValues ''label'' (Labels a) allowLabelsList")
      (auto simp add: vpaLabelsFunc_def wrapVPAFunc_Inr prependDefaultLabels_def)
  from A L show ?thesis by blast
qed

lemma sanitizeLabelName_app: "sanitizeLabelName ''app'' = ''app''"
  by (simp add: sanitize_defs)

text \<open>
  The example object under an allow-list that names its label key and none of its
  annotation keys, and the object without labels under the wildcard.
\<close>

theorem annotations_and_labels_generators_one_metric_witness:
  "passesNoKeys exampleAllowList (Annotations exampleVPA)
   \<and> Labels bareVPA = []
   \<and> wrapVPAFunc (vpaAnnotationsFunc exampleAllowList) (VerticalPodAutoscalerObject exampleVPA) =
       Inr \<lparr>Metrics = [\<lparr>LabelKeys = [''namespace'', ''verticalpodautoscaler'',
                                     ''target_api_version'', ''target_kind'', ''target_name''],
                        LabelValues = [''ns1'', ''vpa1'', ''apps/v1'', ''Deployment'',
                                       ''deployment1''],
                        Value = 1\<rparr>]\<rparr>
   \<and> wrapVPAFunc (vpaLabelsFunc exampleAllowList) (VerticalPodAutoscalerObject exampleVPA) =
       Inr \<lparr>Metrics = [\<lparr>LabelKeys = [''namespace'', ''verticalpodautoscaler'',
                                     ''target_api_version'', ''target_kind'', ''target_name'',
                                     ''label_app''],
                        LabelValues = [''ns1'', ''vpa1'', ''apps/v1'', ''Deployment'',
                                       ''deployment1'', ''foobar''],
                        Value = 1\<rparr>]\<rparr>
   \<and> wrapVPAFunc (vpaLabelsFunc Wildcard) (VerticalPodAutoscalerObject bareVPA) =
       Inr \<lparr>Metrics = [\<lparr>LabelKeys = [''namespace'', ''verticalpodautoscaler'',
                                     ''target_api_version'', ''target_kind'', ''target_name''],
                        LabelValues = [''ns1'', ''vpa2'', '''', '''', ''''],
                        Value = 1\<rparr>]\<rparr>"
proof -
  have h1: "passesNoKeys exampleAllowList (Annotations exampleVPA)"
    by (simp add: passesNoKeys_def example_defs)
  have h2: "Labels bareVPA = []"
    by (simp add: bareVPA_def)
  have l1: "createPrometheusLabelKeysValues ''label'' (Labels exampleVPA) exampleAllowList =
      ([''label_app''], [''foobar''])"
    by (simp add: createPrometheusLabelKeysValues_def allowedEntries_def lookupAllowed_def
        sanitizeEntry_def sanitizeLabelName_app example_defs)
  have l2: "vpaLabelsFunc exampleAllowList exampleVPA =
      \<lparr>Metrics = [\<lparr>LabelKeys = [''label_app''], LabelValues = [''foobar''], Value = 1\<rparr>]\<rparr>"
    by (simp add: vpaLabelsFunc_def l1)
  show ?thesis
    using h1 h2 l2 defaultLabelValues_exampleVPA defaultLabelValues_bareVPA
      annotations_and_labels_generators_one_metric
        [of exampleAllowList exampleVPA exampleAllowList]
      annotations_and_labels_generators_one_metric [of Wildcard bareVPA Wildcard]
    by (auto simp add: descVerticalPodAutoscalerLabelsDefaultLabels_def)
qed

subsection \<open>The example object under the generators\<close>

lemma vpaResourcesToMetrics_exampleResources:
  "vpaResourcesToMetrics c exampleResources =
     [\<lparr>LabelKeys = [''container'', ''resource'', ''unit''],
       LabelValues = [c, ''cpu'', ''core''], Value = 1 / 2\<rparr>,
      \<lparr>LabelKeys = [''container'', ''resource'', ''unit''],
       LabelValues = [c, ''memory'', ''byte''], Value = 134217728\<rparr>]"
  by (simp add: vpaResourcesToMetrics_concat resourceMetrics_cases exampleResources_def
      quantity_500m_def quantity_128Mi_def float64_500m float64_128Mi)

lemma vpaResourcesToMetrics_exampleResourcesReordered:
  "vpaResourcesToMetrics c exampleResourcesReordered =
     [\<lparr>LabelKeys = [''container'', ''resource'', ''unit''],
       LabelValues = [c, ''memory'', ''byte''], Value = 134217728\<rparr>,
      \<lparr>LabelKeys = [''container'', ''resource'', ''unit''],
       LabelValues = [c, ''cpu'', ''core''], Value = 1 / 2\<rparr>]"
  by (simp add: vpaResourcesToMetrics_concat resourceMetrics_cases exampleResourcesReordered_def
      quantity_500m_def quantity_128Mi_def float64_500m float64_128Mi)

lemma vpaMinAllowedFunc_exampleVPAWith:
  "Metrics (vpaMinAllowedFunc (exampleVPAWith rs)) = vpaResourcesToMetrics ''*'' rs"
  by (simp add: vpaMinAllowedFunc_def containerPoliciesFunc_Metrics exampleVPAWith_def
      exampleSpec_def)

text \<open>
  C1. For every object and all allow-lists, every Metric that one of the nine typed
  closures returns has as many label keys as label values; the generators of
  \<^verbatim>\<open>vpaMetricFamilies\<close> are these closures under \<^verbatim>\<open>wrapVPAFunc\<close>; and every Metric that
  a generator returns, after the wrapper has put the default labels in front, has as
  many label keys as label values again.
\<close>

theorem label_keys_and_values_have_equal_length:
  "(\<forall>g \<in> set (vpaTypedFuncs allowAnnotationsList allowLabelsList).
      \<forall>m \<in> set (Metrics (g a)). length (LabelKeys m) = length (LabelValues m))
   \<and> map GenerateFunc (vpaMetricFamilies allowAnnotationsList allowLabelsList) =
       map wrapVPAFunc (vpaTypedFuncs allowAnnotationsList allowLabelsList)
   \<and> (\<forall>G \<in> set (vpaMetricFamilies allowAnnotationsList allowLabelsList).
        \<exists>fam. GenerateFunc G (VerticalPodAutoscalerObject a) = Inr fam
          \<and> (\<forall>m \<in> set (Metrics fam). length (LabelKeys m) = length (LabelValues m)))"
proof -
  let ?typed = "vpaTypedFuncs allowAnnotationsList allowLabelsList"
  let ?gens = "vpaMetricFamilies allowAnnotationsList allowLabelsList"
  have before: "\<forall>g \<in> set ?typed. \<forall>m \<in> set (Metrics (g a)).
      length (LabelKeys m) = length (LabelValues m)"
    using typed_parity by blast
  have gens: "map GenerateFunc ?gens = map wrapVPAFunc ?typed"
    by (rule GenerateFunc_vpaMetricFamilies)
  have after: "\<exists>fam. GenerateFunc G (VerticalPodAutoscalerObject a) = Inr fam
      \<and> (\<forall>m \<in> set (Metrics fam). length (LabelKeys m) = length (LabelValues m))"
    if G: "G \<in> set ?gens" for G
  proof -
    from G have "GenerateFunc G \<in> set (map GenerateFunc ?gens)"
      by simp
    with gens obtain g where g: "g \<in> set ?typed" and eq: "GenerateFunc G = wrapVPAFunc g"
      by auto
    have "length (LabelKeys m) = length (LabelValues m)"
      if "m \<in> set (map (prependDefaultLabels a) (Metrics (g a)))" for m
    proof -
      from that obtain m0 where m0: "m0 \<in> set (Metrics (g a))"
        and m: "m = prependDefaultLabels a m0"
        by auto
      from before g m0 have "length (LabelKeys m0) = length (LabelValues m0)"
        by blast
      with m show ?thesis
        by (simp add: prependDefaultLabels_def length_defaultLabelValues length_defaultLabels)
    qed
    then show ?thesis
      by (simp add: eq wrapVPAFunc_Inr)
  qed
  from before gens after show ?thesis
    by blast
qed

text \<open>The cpu Metric of the minallowed generator on the example object.\<close>

theorem label_keys_and_values_have_equal_length_witness:
  "vpaMinAllowedFunc \<in> set (vpaTypedFuncs Wildcard Wildcard)
   \<and> \<lparr>LabelKeys = [''container'', ''resource'', ''unit''],
       LabelValues = [''*'', ''cpu'', ''core''], Value = 1 / 2\<rparr>
       \<in> set (Metrics (vpaMinAllowedFunc exampleVPA))
   \<and> length (LabelKeys \<lparr>LabelKeys = [''container'', ''resource'', ''unit''],
       LabelValues = [''*'', ''cpu'', ''core''], Value = 1 / 2\<rparr>) =
     length (LabelValues \<lparr>LabelKeys = [''container'', ''resource'', ''unit''],
       LabelValues = [''*'', ''cpu'', ''core''], Value = 1 / 2\<rparr>)
   \<and> length (vpaMetricFamilies Wildcard Wildcard) = 9"
proof -
  have h1: "vpaMinAllowedFunc \<in> set (vpaTypedFuncs Wildcard Wildcard)"
    by (simp add: vpaTypedFuncs_def)
  have h2: "\<lparr>LabelKeys = [''container'', ''resource'', ''unit''],
       LabelValues = [''*'', ''cpu'', ''core''], Value = 1 / 2\<rparr>
       \<in> set (Metrics (vpaMinAllowedFunc exampleVPA))"
    by (simp add: exampleVPA_def vpaMinAllowedFunc_exampleVPAWith
        vpaResourcesToMetrics_exampleResources)
  have h3: "length (vpaMetricFamilies Wildcard Wildcard) = 9"
    by (simp add: vpaMetricFamilies_def)
  from label_keys_and_values_have_equal_length [of Wildcard Wildcard exampleVPA] h1 h2
  have "length (LabelKeys \<lparr>LabelKeys = [''container'', ''resource'', ''unit''],
       LabelValues = [''*'', ''cpu'', ''core''], Value = 1 / 2\<rparr>) =
     length (LabelValues \<lparr>LabelKeys = [''container'', ''resource'', ''unit''],
       LabelValues = [''*'', ''cpu'', ''core''], Value = 1 / 2\<rparr>)"
    by blast
  with h1 h2 h3 show ?thesis
    by blast
qed

text \<open>
  C3, as stated: a cpu quantity yields the value \<^verbatim>\<open>MilliValue / 1000\<close>, and a memory,
  storage or ephemeral-storage quantity yields its exact integer value. The Metric
  value is a \<^verbatim>\<open>float64\<close>: \<open>2^53 + 1\<close> bytes come out as \<open>2^53\<close>, and \<^verbatim>\<open>100m\<close> of cpu comes
  out as the \<^verbatim>\<open>float64\<close> nearest to a tenth, which is not a tenth.
\<close>

theorem vpaResourcesToMetrics_rounding_counterexample:
  "Quantity_Value quantity_9007199254740993 = 9007199254740993
   \<and> map Value (vpaResourcesToMetrics ''container1''
        [(''memory'', quantity_9007199254740993)]) = [9007199254740992]
   \<and> MilliValue quantity_100m = 100
   \<and> map Value (vpaResourcesToMetrics ''container1'' [(''cpu'', quantity_100m)]) =
       [3602879701896397 / 36028797018963968]
   \<and> (3602879701896397 / 36028797018963968 :: rat) \<noteq> 100 / 1000"
  by (simp add: vpaResourcesToMetrics_concat resourceMetrics_cases quantity_100m_def
      quantity_9007199254740993_def float64_100m float64_9007199254740993)

text \<open>
  C3, amended. For every container name and every resource list,
  \<^verbatim>\<open>vpaResourcesToMetrics\<close> returns, entry by entry in the order of the visit, one Metric
  for an entry named cpu, memory, storage or ephemeral-storage and nothing for any
  other name; the number of Metrics is the number of entries with a recognized name.
  The Metric of cpu has the unit core and the value \<^verbatim>\<open>float64(MilliValue) / 1000\<close>, a
  \<^verbatim>\<open>float64\<close> division: for \<open>\<bar>MilliValue\<bar> \<le> 2^53\<close> it differs from \<open>MilliValue / 1000\<close> by
  at most that quotient times \<open>2^-53\<close>. The Metric of each of the other three has the
  unit byte and the value \<^verbatim>\<open>float64(Value)\<close>, which is the exact integer whenever
  \<open>\<bar>Value\<bar> \<le> 2^53\<close>. The map of cpu \<^verbatim>\<open>500m\<close> and memory \<^verbatim>\<open>128Mi\<close> yields exactly two
  Metrics, with the values 0.5 and 134217728, in either order of visit.
\<close>

theorem vpaResourcesToMetrics_conversion:
  "vpaResourcesToMetrics containerName resources =
     concat (map (\<lambda>(n, q).
       if n = ''cpu'' then
         [\<lparr>LabelKeys = [''container'', ''resource'', ''unit''],
           LabelValues = [containerName, ''cpu'', ''core''],
           Value = float64Div (float64OfInt64 (MilliValue q)) 1000\<rparr>]
       else if n = ''memory'' \<or> n = ''storage'' \<or> n = ''ephemeral-storage'' then
         [\<lparr>LabelKeys = [''container'', ''resource'', ''unit''],
           LabelValues = [containerName, sanitizeLabelName n, ''byte''],
           Value = float64OfInt64 (Quantity_Value q)\<rparr>]
       else []) resources)
   \<and> length (vpaResourcesToMetrics containerName resources) =
       length (filter (\<lambda>e. fst e \<in> {''cpu'', ''memory'', ''storage'', ''ephemeral-storage''})
         resources)
   \<and> (\<forall>n. \<bar>n\<bar> \<le> 2 ^ 53 \<longrightarrow> float64OfInt64 n = of_int n)
   \<and> (\<forall>n. \<bar>n\<bar> \<le> 2 ^ 53 \<longrightarrow>
         \<bar>float64Div (float64OfInt64 n) 1000 - of_int n / 1000\<bar> \<le> \<bar>of_int n / 1000\<bar> / 2 ^ 53)
   \<and> vpaResourcesToMetrics containerName [(''cpu'', quantity_500m), (''memory'', quantity_128Mi)] =
       [\<lparr>LabelKeys = [''container'', ''resource'', ''unit''],
         LabelValues = [containerName, ''cpu'', ''core''], Value = 0.5\<rparr>,
        \<lparr>LabelKeys = [''container'', ''resource'', ''unit''],
         LabelValues = [containerName, ''memory'', ''byte''], Value = 134217728\<rparr>]
   \<and> vpaResourcesToMetrics containerName [(''memory'', quantity_128Mi), (''cpu'', quantity_500m)] =
       [\<lparr>LabelKeys = [''container'', ''resource'', ''unit''],
         LabelValues = [containerName, ''memory'', ''byte''], Value = 134217728\<rparr>,
        \<lparr>LabelKeys = [''container'', ''resource'', ''unit''],
         LabelValues = [containerName, ''cpu'', ''core''], Value = 0.5\<rparr>]
   \<and> vpaResourcesToMetrics containerName
         [(''cpu'', quantity_500m), (''nvidia.com/gpu'', quantity_500m),
          (''memory'', quantity_128Mi)] =
       vpaResourcesToMetrics containerName [(''cpu'', quantity_500m), (''memory'', quantity_128Mi)]"
proof -
  have step: "resourceMetrics containerName e =
      (case e of (n, q) \<Rightarrow>
       if n = ''cpu'' then
         [\<lparr>LabelKeys = [''container'', ''resource'', ''unit''],
           LabelValues = [containerName, ''cpu'', ''core''],
           Value = float64Div (float64OfInt64 (MilliValue q)) 1000\<rparr>]
       else if n = ''memory'' \<or> n = ''storage'' \<or> n = ''ephemeral-storage'' then
         [\<lparr>LabelKeys = [''container'', ''resource'', ''unit''],
           LabelValues = [containerName, sanitizeLabelName n, ''byte''],
           Value = float64OfInt64 (Quantity_Value q)\<rparr>]
       else [])" for e
    by (cases e) (auto simp add: resourceMetrics_cases sanitize_defs)
  have general: "vpaResourcesToMetrics containerName resources =
     concat (map (\<lambda>(n, q).
       if n = ''cpu'' then
         [\<lparr>LabelKeys = [''container'', ''resource'', ''unit''],
           LabelValues = [containerName, ''cpu'', ''core''],
           Value = float64Div (float64OfInt64 (MilliValue q)) 1000\<rparr>]
       else if n = ''memory'' \<or> n = ''storage'' \<or> n = ''ephemeral-storage'' then
         [\<lparr>LabelKeys = [''container'', ''resource'', ''unit''],
           LabelValues = [containerName, sanitizeLabelName n, ''byte''],
           Value = float64OfInt64 (Quantity_Value q)\<rparr>]
       else []) resources)"
    unfolding vpaResourcesToMetrics_concat
    by (rule arg_cong [where f = concat], rule map_cong [OF refl]) (simp add: step)
  have count: "length (vpaResourcesToMetrics containerName rs) =
       length (filter (\<lambda>e. fst e \<in> {''cpu'', ''memory'', ''storage'', ''ephemeral-storage''}) rs)"
    for rs
    unfolding vpaResourcesToMetrics_concat
    by (induction rs) (auto simp add: resourceMetrics_cases)
  have exact: "\<forall>n. \<bar>n\<bar> \<le> 2 ^ 53 \<longrightarrow> float64OfInt64 n = of_int n"
    by (simp add: float64OfInt64_exact)
  have near: "\<forall>n. \<bar>n\<bar> \<le> 2 ^ 53 \<longrightarrow>
      \<bar>float64Div (float64OfInt64 n) 1000 - of_int n / 1000\<bar> \<le> \<bar>of_int n / 1000\<bar> / 2 ^ 53"
  proof (intro allI impI)
    fix n :: int
    assume "\<bar>n\<bar> \<le> 2 ^ 53"
    then have "float64OfInt64 n = of_int n"
      by (rule float64OfInt64_exact)
    with float64Div_error [of "of_int n" 1000]
    show "\<bar>float64Div (float64OfInt64 n) 1000 - of_int n / 1000\<bar> \<le> \<bar>of_int n / 1000\<bar> / 2 ^ 53"
      by simp
  qed
  have ex1: "vpaResourcesToMetrics containerName [(''cpu'', quantity_500m), (''memory'', quantity_128Mi)] =
       [\<lparr>LabelKeys = [''container'', ''resource'', ''unit''],
         LabelValues = [containerName, ''cpu'', ''core''], Value = 0.5\<rparr>,
        \<lparr>LabelKeys = [''container'', ''resource'', ''unit''],
         LabelValues = [containerName, ''memory'', ''byte''], Value = 134217728\<rparr>]"
    using vpaResourcesToMetrics_exampleResources [of containerName]
    by (simp add: exampleResources_def)
  have ex2: "vpaResourcesToMetrics containerName [(''memory'', quantity_128Mi), (''cpu'', quantity_500m)] =
       [\<lparr>LabelKeys = [''container'', ''resource'', ''unit''],
         LabelValues = [containerName, ''memory'', ''byte''], Value = 134217728\<rparr>,
        \<lparr>LabelKeys = [''container'', ''resource'', ''unit''],
         LabelValues = [containerName, ''cpu'', ''core''], Value = 0.5\<rparr>]"
    using vpaResourcesToMetrics_exampleResourcesReordered [of containerName]
    by (simp add: exampleResourcesReordered_def)
  have ex3: "vpaResourcesToMetrics containerName
         [(''cpu'', quantity_500m), (''nvidia.com/gpu'', quantity_500m),
          (''memory'', quantity_128Mi)] =
       vpaResourcesToMetrics containerName [(''cpu'', quantity_500m), (''memory'', quantity_128Mi)]"
    by (simp add: vpaResourcesToMetrics_concat resourceMetrics_cases)
  from general count [of resources] exact near ex1 ex2 ex3 show ?thesis
    by blast
qed

text \<open>
  The quantities \<^verbatim>\<open>128Mi\<close> and \<^verbatim>\<open>500m\<close> lie within the bound, and a resource list with an
  unrecognized name between two recognized ones yields two Metrics.
\<close>

theorem vpaResourcesToMetrics_conversion_witness:
  "\<bar>134217728 :: int\<bar> \<le> 2 ^ 53
   \<and> float64OfInt64 134217728 = 134217728
   \<and> \<bar>500 :: int\<bar> \<le> 2 ^ 53
   \<and> \<bar>float64Div (float64OfInt64 500) 1000 - 500 / 1000\<bar> \<le> \<bar>500 / 1000 :: rat\<bar> / 2 ^ 53
   \<and> map Value (vpaResourcesToMetrics ''container1''
        [(''cpu'', quantity_500m), (''nvidia.com/gpu'', quantity_500m),
         (''memory'', quantity_128Mi)]) = [0.5, 134217728]"
proof -
  have h1: "\<bar>134217728 :: int\<bar> \<le> 2 ^ 53" and h2: "\<bar>500 :: int\<bar> \<le> 2 ^ 53"
    by simp_all
  from vpaResourcesToMetrics_conversion [of "''container1''" "[]"]
  have exact: "\<forall>n. \<bar>n\<bar> \<le> 2 ^ 53 \<longrightarrow> float64OfInt64 n = of_int n"
    and near: "\<forall>n. \<bar>n\<bar> \<le> 2 ^ 53 \<longrightarrow>
      \<bar>float64Div (float64OfInt64 n) 1000 - of_int n / 1000\<bar> \<le> \<bar>of_int n / 1000\<bar> / 2 ^ 53"
    and ex: "vpaResourcesToMetrics ''container1''
         [(''cpu'', quantity_500m), (''nvidia.com/gpu'', quantity_500m),
          (''memory'', quantity_128Mi)] =
       vpaResourcesToMetrics ''container1'' [(''cpu'', quantity_500m), (''memory'', quantity_128Mi)]"
    and two: "vpaResourcesToMetrics ''container1''
         [(''cpu'', quantity_500m), (''memory'', quantity_128Mi)] =
       [\<lparr>LabelKeys = [''container'', ''resource'', ''unit''],
         LabelValues = [''container1'', ''cpu'', ''core''], Value = 0.5\<rparr>,
        \<lparr>LabelKeys = [''container'', ''resource'', ''unit''],
         LabelValues = [''container1'', ''memory'', ''byte''], Value = 134217728\<rparr>]"
    by blast+
  from exact h1 have c1: "float64OfInt64 134217728 = 134217728"
    by (metis of_int_numeral)
  from near h2
  have c2: "\<bar>float64Div (float64OfInt64 500) 1000 - 500 / 1000\<bar> \<le> \<bar>500 / 1000 :: rat\<bar> / 2 ^ 53"
    by (metis of_int_numeral)
  have c3: "map Value (vpaResourcesToMetrics ''container1''
        [(''cpu'', quantity_500m), (''nvidia.com/gpu'', quantity_500m),
         (''memory'', quantity_128Mi)]) = [0.5, 134217728]"
    by (simp add: ex two)
  from h1 c1 h2 c2 c3 show ?thesis
    by blast
qed

subsection \<open>Two orders of visit of one map\<close>














end
